theory Spec2Isabelle
  imports Complex_Main
begin

section \<open>Errors and Python values\<close>

text \<open>
  The exceptions the modelled code can raise. \<open>LengthMismatch name\<close> is the
  \<open>ValueError\<close> of \<open>Comparator._ensure_list\<close>, whose message names the operand;
  \<open>TypeError\<close>, \<open>KeyError\<close>, \<open>AttributeError\<close> and \<open>UnboundLocalError\<close> are
  the interpreter's own; \<open>Raised\<close> is an exception of a collaborator that is passed in
  as a parameter.
\<close>

datatype error =
    LengthMismatch string
  | TypeError
  | KeyError
  | AttributeError
  | UnboundLocalError
  | Raised string

definition bind_err :: "error + 'a \<Rightarrow> ('a \<Rightarrow> error + 'b) \<Rightarrow> error + 'b" where
  "bind_err r f = (case r of Inl e \<Rightarrow> Inl e | Inr v \<Rightarrow> f v)"

text \<open>
  The values a \<open>Comparator\<close> field can hold: \<open>None\<close>, a number (\<open>float | int\<close>, as an
  exact rational) or a list.
\<close>

datatype pyval = PyNone | PyNum rat | PyList "pyval list"

text \<open>
  Python's \<open><\<close>: numbers compare by value, lists lexicographically (the first pair of
  unequal elements decides), and every other pairing raises \<open>TypeError\<close>
  (\<open>'<' not supported between instances of 'int' and 'list'\<close>). \<open>a > b\<close> is the
  reflected \<open>b < a\<close> on these types.
\<close>

fun py_lt :: "pyval \<Rightarrow> pyval \<Rightarrow> error + bool"
  and py_lt_list :: "pyval list \<Rightarrow> pyval list \<Rightarrow> error + bool" where
  "py_lt (PyNum a) (PyNum b) = Inr (a < b)"
| "py_lt (PyList xs) (PyList ys) = py_lt_list xs ys"
| "py_lt (PyNum a) PyNone = Inl TypeError"
| "py_lt (PyNum a) (PyList ys) = Inl TypeError"
| "py_lt (PyList xs) PyNone = Inl TypeError"
| "py_lt (PyList xs) (PyNum b) = Inl TypeError"
| "py_lt PyNone b = Inl TypeError"
| "py_lt_list [] [] = Inr False"
| "py_lt_list [] (y # ys) = Inr True"
| "py_lt_list (x # xs) [] = Inr False"
| "py_lt_list (x # xs) (y # ys) = (if x = y then py_lt_list xs ys else py_lt x y)"

definition py_gt :: "pyval \<Rightarrow> pyval \<Rightarrow> error + bool" where
  "py_gt a b = py_lt b a"

section \<open>The Comparator of comparison.py\<close>

text \<open>
  The dataclass \<open>Comparator\<close> with its fields \<open>x\<close>, \<open>compare\<close>, \<open>low\<close> and \<open>high\<close>
  (prefixed here, a record field being a constant of the theory). An operand that was
  not supplied is \<open>None\<close>.
\<close>

record Comparator =
  cmp_x :: pyval
  cmp_compare :: pyval
  cmp_low :: pyval
  cmp_high :: pyval

text \<open>
  \<open>_ensure_list(value, length, name)\<close>: a value that is not a list is repeated
  \<open>length\<close> times (once when no length is given); a list of another length than the
  one asked for raises; any other list is returned as it is.
\<close>

fun ensure_list :: "pyval \<Rightarrow> nat option \<Rightarrow> string \<Rightarrow> error + pyval" where
  "ensure_list (PyList vs) len name =
     (case len of
        None \<Rightarrow> Inr (PyList vs)
      | Some n \<Rightarrow> if length vs \<noteq> n then Inl (LengthMismatch name) else Inr (PyList vs))"
| "ensure_list v len name =
     Inr (PyList (replicate (case len of None \<Rightarrow> 1 | Some n \<Rightarrow> n) v))"

text \<open>The list \<open>self.x\<close> holds once \<open>__post_init__\<close> has normalised it.\<close>

fun x_as_list :: "pyval \<Rightarrow> pyval list" where
  "x_as_list (PyList xs) = xs"
| "x_as_list v = [v]"

text \<open>
  \<open>__post_init__\<close>: \<open>x\<close> becomes a list, then \<open>compare\<close>, \<open>low\<close> and \<open>high\<close>, in
  this order and each only when it is not \<open>None\<close>, go through \<open>_ensure_list\<close> with
  \<open>len(self.x)\<close>. The first failure aborts the construction.
\<close>

definition ensure_operand :: "pyval \<Rightarrow> nat \<Rightarrow> string \<Rightarrow> error + pyval" where
  "ensure_operand v n name = (if v \<noteq> PyNone then ensure_list v (Some n) name else Inr PyNone)"

definition post_init :: "Comparator \<Rightarrow> error + Comparator" where
  "post_init c =
     (let xs = x_as_list (cmp_x c); n = length xs in
      bind_err (ensure_operand (cmp_compare c) n ''compare'') (\<lambda>cmp.
      bind_err (ensure_operand (cmp_low c) n ''low'') (\<lambda>lo.
      bind_err (ensure_operand (cmp_high c) n ''high'') (\<lambda>hi.
        Inr \<lparr>cmp_x = PyList xs, cmp_compare = cmp, cmp_low = lo, cmp_high = hi\<rparr>))))"

text \<open>
  \<open>outside()\<close> is the comprehension
  \<open>[i < self.low or i > self.high for i in self.x]\<close>: each element is compared with
  the field \<open>self.low\<close> itself and, when that comparison is false, with \<open>self.high\<close>.
  An exception of one comparison ends the whole call.
\<close>

fun outside_elems :: "pyval list \<Rightarrow> pyval \<Rightarrow> pyval \<Rightarrow> error + bool list" where
  "outside_elems [] lo hi = Inr []"
| "outside_elems (i # rest) lo hi =
     bind_err (py_lt i lo) (\<lambda>below.
     bind_err (if below then Inr True else py_gt i hi) (\<lambda>b.
     bind_err (outside_elems rest lo hi) (\<lambda>bs. Inr (b # bs))))"

definition Comparator_outside :: "Comparator \<Rightarrow> error + bool list" where
  "Comparator_outside c =
     (case cmp_x c of
        PyList xs \<Rightarrow> outside_elems xs (cmp_low c) (cmp_high c)
      | _ \<Rightarrow> Inl TypeError)"

section \<open>The local backends of _interrogation.py\<close>

text \<open>
  The local tables the interrogation runs on are Pandas and Polars data frames, read
  through Narwhals (\<open>is_pandas_dataframe\<close>, \<open>is_polars_dataframe\<close>). A frame is its
  kind and its rows; a row gives each column name its cell, and a cell is a value or
  null (\<open>None\<close>). Only the columns a method names are read, so a row is a function on
  all names; the step executors check that the target column exists
  (\<open>_column_test_prep\<close>) before an Interrogator is built.
\<close>

datatype frame_kind = Pandas | Polars

record 'a frame =
  kind :: frame_kind
  rows :: "(string \<Rightarrow> 'a option) list"

text \<open>
  A boolean expression of the backend evaluates, per row, to true, false or null.
  \<open>&\<close>, \<open>|\<close> and \<open>~\<close> are Kleene's connectives, as Polars computes them; on the
  non-null booleans of a Pandas frame they are the classical ones.
\<close>

fun and3 :: "bool option \<Rightarrow> bool option \<Rightarrow> bool option" where
  "and3 (Some False) b = Some False"
| "and3 a (Some False) = Some False"
| "and3 (Some True) (Some True) = Some True"
| "and3 a b = None"

fun or3 :: "bool option \<Rightarrow> bool option \<Rightarrow> bool option" where
  "or3 (Some True) b = Some True"
| "or3 a (Some True) = Some True"
| "or3 (Some False) (Some False) = Some False"
| "or3 a b = None"

fun not3 :: "bool option \<Rightarrow> bool option" where
  "not3 None = None"
| "not3 (Some b) = Some (\<not> b)"

text \<open>\<open>nw.when(c).then(a).otherwise(b)\<close>: \<open>a\<close> where the condition is true, \<open>b\<close> elsewhere.\<close>

definition when_then_otherwise :: "bool option \<Rightarrow> 'b \<Rightarrow> 'b \<Rightarrow> 'b" where
  "when_then_otherwise c a b = (if c = Some True then a else b)"

text \<open>
  The six comparisons of two cells. On two values they are the order's. When a cell is
  null, Polars gives null; a Pandas column holds a missing number as NaN, and a
  comparison with NaN is false, except \<open>!=\<close>, which is true.
\<close>

datatype cmp_op = Gt | Lt | Eq | Ne | Ge | Le

fun holds :: "cmp_op \<Rightarrow> 'a::linorder \<Rightarrow> 'a \<Rightarrow> bool" where
  "holds Gt a b = (b < a)"
| "holds Lt a b = (a < b)"
| "holds Eq a b = (a = b)"
| "holds Ne a b = (a \<noteq> b)"
| "holds Ge a b = (b \<le> a)"
| "holds Le a b = (a \<le> b)"

fun compare_cells :: "frame_kind \<Rightarrow> cmp_op \<Rightarrow> 'a::linorder option \<Rightarrow> 'a option \<Rightarrow> bool option" where
  "compare_cells k op (Some a) (Some b) = Some (holds op a b)"
| "compare_cells Polars op a b = None"
| "compare_cells Pandas op a b = Some (op = Ne)"

text \<open>
  \<open>nw.lit(self.column) != ...\<close> in the Pandas branches of \<open>ne\<close> compares the
  \<^emph>\<open>name\<close> of the target column, a string literal, with the numeric cells of a column
  or with the numeric literal: a string is unequal to every number and to NaN, so the
  comparison is true on every row.
\<close>

definition name_literal_ne :: "string \<Rightarrow> 'a option \<Rightarrow> bool option" where
  "name_literal_ne name cell = Some True"

text \<open>
  \<open>is_in\<close>: membership of the cell's value in the given values; on a null cell Polars
  gives null and Pandas false.
\<close>

fun is_in :: "frame_kind \<Rightarrow> 'a option \<Rightarrow> 'a list \<Rightarrow> bool option" where
  "is_in k (Some v) vs = Some (v \<in> set vs)"
| "is_in Polars None vs = None"
| "is_in Pandas None vs = Some False"

text \<open>
  An operand of a comparison is a literal or a \<open>Column\<close> naming another column of the
  table; \<open>_get_compare_expr_nw\<close> turns it into the expression that is evaluated per row.
\<close>

datatype 'a operand = Literal 'a | Column string

fun get_compare_expr_nw :: "'a operand \<Rightarrow> (string \<Rightarrow> 'a option) \<Rightarrow> 'a option" where
  "get_compare_expr_nw (Column name) r = r name"
| "get_compare_expr_nw (Literal v) r = Some v"

text \<open>
  \<open>_column_has_null_values\<close>: whether the null count of the column is neither
  \<open>None\<close> nor zero.
\<close>

definition column_has_null_values :: "'a frame \<Rightarrow> string \<Rightarrow> bool" where
  "column_has_null_values t c = list_ex (\<lambda>r. r c = None) (rows t)"

section \<open>The Interrogator\<close>

text \<open>
  The dataclass \<open>Interrogator\<close> (fields prefixed \<open>ig_\<close>). Each method reads its own
  operands only; a field a method does not read may hold anything. The model is of the
  branch for local backends (\<open>tbl_type\<close> not an Ibis backend), and a method's value is
  the column \<open>pb_is_good_\<close> of the table it returns, row by row; the returned table
  holds the columns of \<open>x\<close> unchanged beside it, the auxiliary columns
  \<open>pb_is_good_1\<close>, ... being dropped.
\<close>

record 'a Interrogator =
  ig_x :: "'a frame"
  ig_column :: string
  ig_compare :: "'a operand"
  ig_set :: "'a list"
  ig_pattern :: string
  ig_low :: "'a operand"
  ig_high :: "'a operand"
  ig_inclusive :: "bool \<times> bool"
  ig_na_pass :: bool

text \<open>
  \<open>gt\<close>, \<open>lt\<close>, \<open>ge\<close> and \<open>le\<close> have the same body up to the operator: three
  auxiliary columns (the value is null and \<open>na_pass\<close>; the operand column is null and
  \<open>na_pass\<close>, or the literal false; the comparison itself) and their disjunction.
\<close>

definition compare_one_row ::
  "frame_kind \<Rightarrow> cmp_op \<Rightarrow> bool \<Rightarrow> string \<Rightarrow> 'a::linorder operand \<Rightarrow> (string \<Rightarrow> 'a option) \<Rightarrow> bool option" where
  "compare_one_row k op na_pass column compare r =
     (let pb_is_good_1 = and3 (Some (r column = None)) (Some na_pass);
          pb_is_good_2 = (case compare of
                            Column name \<Rightarrow> and3 (Some (r name = None)) (Some na_pass)
                          | Literal v \<Rightarrow> Some False);
          pb_is_good_3 = compare_cells k op (r column) (get_compare_expr_nw compare r)
      in or3 (or3 pb_is_good_1 pb_is_good_2) pb_is_good_3)"

definition gt :: "'a::linorder Interrogator \<Rightarrow> bool option list" where
  "gt I = map (compare_one_row (kind (ig_x I)) Gt (ig_na_pass I) (ig_column I) (ig_compare I))
              (rows (ig_x I))"

definition lt :: "'a::linorder Interrogator \<Rightarrow> bool option list" where
  "lt I = map (compare_one_row (kind (ig_x I)) Lt (ig_na_pass I) (ig_column I) (ig_compare I))
              (rows (ig_x I))"

definition ge :: "'a::linorder Interrogator \<Rightarrow> bool option list" where
  "ge I = map (compare_one_row (kind (ig_x I)) Ge (ig_na_pass I) (ig_column I) (ig_compare I))
              (rows (ig_x I))"

definition le :: "'a::linorder Interrogator \<Rightarrow> bool option list" where
  "le I = map (compare_one_row (kind (ig_x I)) Le (ig_na_pass I) (ig_column I) (ig_compare I))
              (rows (ig_x I))"

text \<open>
  \<open>ne\<close> with a column operand, CASE 1 of the source: the reference column has nulls,
  the comparison column has none. \<open>a\<close> is the cell of the reference column, \<open>b\<close> that
  of the comparison column.
\<close>

definition ne_case1_row :: "frame_kind \<Rightarrow> bool \<Rightarrow> string \<Rightarrow> 'a::linorder option \<Rightarrow> 'a option \<Rightarrow> bool option" where
  "ne_case1_row k na_pass column a b =
     (let pb_is_good_1 = Some (a = None);
          pb_is_good_2 = (case k of
                            Pandas \<Rightarrow> name_literal_ne column b
                          | Polars \<Rightarrow> compare_cells k Ne a b);
          pb_is_good_2 = (if \<not> na_pass then and3 pb_is_good_2 (not3 pb_is_good_1)
                          else pb_is_good_2)
      in case k of
           Pandas \<Rightarrow> pb_is_good_2
         | Polars \<Rightarrow>
             (let pb_is_good_2 =
                    when_then_otherwise (Some (pb_is_good_2 = None)) (Some False) pb_is_good_2
              in if na_pass then or3 pb_is_good_1 pb_is_good_2 else pb_is_good_2))"

text \<open>CASE 2: the comparison column has nulls, the reference column has none.\<close>

definition ne_case2_row :: "frame_kind \<Rightarrow> bool \<Rightarrow> string \<Rightarrow> 'a::linorder option \<Rightarrow> 'a option \<Rightarrow> bool option" where
  "ne_case2_row k na_pass name a b =
     (let pb_is_good_1 = (case k of
                            Pandas \<Rightarrow> name_literal_ne name a
                          | Polars \<Rightarrow> compare_cells k Ne a b);
          pb_is_good_2 = Some (b = None);
          pb_is_good_1 = (if \<not> na_pass then and3 pb_is_good_1 (not3 pb_is_good_2)
                          else pb_is_good_1)
      in case k of
           Pandas \<Rightarrow> pb_is_good_1
         | Polars \<Rightarrow> if na_pass then or3 pb_is_good_1 pb_is_good_2 else pb_is_good_1)"

text \<open>
  CASE 3: both columns have nulls. On a Polars frame with \<open>na_pass\<close> the result column
  is rebuilt from the two null tests alone
  (\<open>when(pb_is_good_1 | pb_is_good_2).then(True).otherwise(False)\<close>).
\<close>

definition ne_case3_row :: "frame_kind \<Rightarrow> bool \<Rightarrow> 'a::linorder option \<Rightarrow> 'a option \<Rightarrow> bool option" where
  "ne_case3_row k na_pass a b =
     (let pb_is_good_1 = Some (a = None);
          pb_is_good_2 = Some (b = None);
          pb_is_good_3 = compare_cells k Ne a b;
          pb_is_good_3 = (if \<not> na_pass
                          then and3 (and3 pb_is_good_3 (not3 pb_is_good_1)) (not3 pb_is_good_2)
                          else pb_is_good_3)
      in case k of
           Pandas \<Rightarrow> pb_is_good_3
         | Polars \<Rightarrow>
             if na_pass
             then when_then_otherwise (or3 pb_is_good_1 pb_is_good_2) (Some True) (Some False)
             else pb_is_good_3)"

text \<open>\<open>ne\<close> with a literal operand when the reference column has nulls.\<close>

definition ne_literal_row :: "frame_kind \<Rightarrow> bool \<Rightarrow> string \<Rightarrow> 'a::linorder option \<Rightarrow> 'a \<Rightarrow> bool option" where
  "ne_literal_row k na_pass column a v =
     (case k of
        Pandas \<Rightarrow>
          (let pb_is_good_1 = Some (a = None);
               pb_is_good_2 = name_literal_ne column (Some v)
           in if \<not> na_pass then and3 pb_is_good_2 (not3 pb_is_good_1) else pb_is_good_2)
      | Polars \<Rightarrow>
          (let pb_is_good_1 = Some (a = None);
               pb_is_good_2 = Some na_pass;
               pb_is_good_3 = compare_cells k Ne a (Some v)
           in or3 (and3 pb_is_good_1 pb_is_good_2) (and3 pb_is_good_3 (not3 pb_is_good_1))))"

text \<open>
  \<open>ne\<close>: first whether the reference column and (for a column operand) the comparison
  column hold nulls; with no null a plain \<open>!=\<close>; otherwise one of the cases above.
  Where at least one of the two columns has nulls the conditions of CASE 1, 2 and 3 are
  exhaustive, so CASE 3 is the last branch; so are the two frame kinds for a literal.
\<close>

definition ne :: "'a::linorder Interrogator \<Rightarrow> bool option list" where
  "ne I =
     (let t = ig_x I; column = ig_column I; na_pass = ig_na_pass I;
          ref_col_has_null_vals = column_has_null_values t column;
          cmp_col_has_null_vals = (case ig_compare I of
                                     Column name \<Rightarrow> column_has_null_values t name
                                   | Literal v \<Rightarrow> False)
      in if \<not> ref_col_has_null_vals \<and> \<not> cmp_col_has_null_vals
         then map (\<lambda>r. compare_cells (kind t) Ne (r column) (get_compare_expr_nw (ig_compare I) r))
                  (rows t)
         else (case ig_compare I of
                 Column name \<Rightarrow>
                   if ref_col_has_null_vals \<and> \<not> cmp_col_has_null_vals
                   then map (\<lambda>r. ne_case1_row (kind t) na_pass column (r column) (r name)) (rows t)
                   else if \<not> ref_col_has_null_vals \<and> cmp_col_has_null_vals
                   then map (\<lambda>r. ne_case2_row (kind t) na_pass name (r column) (r name)) (rows t)
                   else map (\<lambda>r. ne_case3_row (kind t) na_pass (r column) (r name)) (rows t)
               | Literal v \<Rightarrow>
                   if \<not> ref_col_has_null_vals
                   then map (\<lambda>r. compare_cells (kind t) Ne (r column) (Some v)) (rows t)
                   else map (\<lambda>r. ne_literal_row (kind t) na_pass column (r column) v) (rows t)))"

text \<open>
  \<open>between\<close>: the null tests of the value and of the two bounds, \<open>na_pass\<close>, the two
  comparisons chosen by \<open>inclusive\<close>, and their combination.
\<close>

definition between_row ::
  "frame_kind \<Rightarrow> bool \<Rightarrow> bool \<times> bool \<Rightarrow> string \<Rightarrow> 'a::linorder operand \<Rightarrow> 'a operand
     \<Rightarrow> (string \<Rightarrow> 'a option) \<Rightarrow> bool option" where
  "between_row k na_pass inclusive column low high r =
     (let low_val = get_compare_expr_nw low r;
          high_val = get_compare_expr_nw high r;
          pb_is_good_1 = Some (r column = None);
          pb_is_good_2 = (case low of Column name \<Rightarrow> Some (r name = None) | Literal v \<Rightarrow> Some False);
          pb_is_good_3 = (case high of Column name \<Rightarrow> Some (r name = None) | Literal v \<Rightarrow> Some False);
          pb_is_good_4 = Some na_pass;
          pb_is_good_5 = (if fst inclusive then compare_cells k Ge (r column) low_val
                          else compare_cells k Gt (r column) low_val);
          pb_is_good_6 = (if snd inclusive then compare_cells k Le (r column) high_val
                          else compare_cells k Lt (r column) high_val)
      in or3 (and3 (or3 (or3 pb_is_good_1 pb_is_good_2) pb_is_good_3) pb_is_good_4)
             (and3 pb_is_good_5 pb_is_good_6))"

definition between :: "'a::linorder Interrogator \<Rightarrow> bool option list" where
  "between I = map (between_row (kind (ig_x I)) (ig_na_pass I) (ig_inclusive I) (ig_column I)
                      (ig_low I) (ig_high I))
                   (rows (ig_x I))"

text \<open>
  \<open>outside\<close>: the same null tests; the two comparisons are the opposite ones, a null
  comparison result is replaced by false, and each comparison counts only when the
  other bound is not null.
\<close>

definition outside_row ::
  "frame_kind \<Rightarrow> bool \<Rightarrow> bool \<times> bool \<Rightarrow> string \<Rightarrow> 'a::linorder operand \<Rightarrow> 'a operand
     \<Rightarrow> (string \<Rightarrow> 'a option) \<Rightarrow> bool option" where
  "outside_row k na_pass inclusive column low high r =
     (let low_val = get_compare_expr_nw low r;
          high_val = get_compare_expr_nw high r;
          pb_is_good_1 = Some (r column = None);
          pb_is_good_2 = (case low of Column name \<Rightarrow> Some (r name = None) | Literal v \<Rightarrow> Some False);
          pb_is_good_3 = (case high of Column name \<Rightarrow> Some (r name = None) | Literal v \<Rightarrow> Some False);
          pb_is_good_4 = Some na_pass;
          pb_is_good_5 = (if fst inclusive then compare_cells k Lt (r column) low_val
                          else compare_cells k Le (r column) low_val);
          pb_is_good_6 = (if snd inclusive then compare_cells k Gt (r column) high_val
                          else compare_cells k Ge (r column) high_val);
          pb_is_good_5 = when_then_otherwise (Some (pb_is_good_5 = None)) (Some False) pb_is_good_5;
          pb_is_good_6 = when_then_otherwise (Some (pb_is_good_6 = None)) (Some False) pb_is_good_6
      in or3 (and3 (or3 (or3 pb_is_good_1 pb_is_good_2) pb_is_good_3) pb_is_good_4)
             (or3 (and3 pb_is_good_5 (not3 pb_is_good_3))
                  (and3 pb_is_good_6 (not3 pb_is_good_2))))"

definition outside :: "'a::linorder Interrogator \<Rightarrow> bool option list" where
  "outside I = map (outside_row (kind (ig_x I)) (ig_na_pass I) (ig_inclusive I) (ig_column I)
                      (ig_low I) (ig_high I))
                   (rows (ig_x I))"

text \<open>
  \<open>isin\<close> is the backend's \<open>is_in\<close> on the column; \<open>notin\<close> computes the same column
  and then replaces it by its negation.
\<close>

definition isin :: "'a Interrogator \<Rightarrow> bool option list" where
  "isin I = map (\<lambda>r. is_in (kind (ig_x I)) (r (ig_column I)) (ig_set I)) (rows (ig_x I))"

definition notin :: "'a Interrogator \<Rightarrow> bool option list" where
  "notin I =
     (let pb_is_good = map (\<lambda>r. is_in (kind (ig_x I)) (r (ig_column I)) (ig_set I)) (rows (ig_x I))
      in map not3 pb_is_good)"

text \<open>
  \<open>regex\<close>. The pattern match \<open>str.contains\<close> belongs to the backend and is a
  parameter: it takes the pattern and a cell and gives the cell of the match column.
  The second auxiliary column takes the match where the value is not null and the
  literal false elsewhere.
\<close>

definition regex_row ::
  "(string \<Rightarrow> 'a option \<Rightarrow> bool option) \<Rightarrow> bool \<Rightarrow> string \<Rightarrow> string \<Rightarrow> (string \<Rightarrow> 'a option) \<Rightarrow> bool option" where
  "regex_row str_contains na_pass pattern column r =
     (let pb_is_good_1 = and3 (Some (r column = None)) (Some na_pass);
          pb_is_good_2 = when_then_otherwise (not3 (Some (r column = None)))
                           (str_contains pattern (r column)) (Some False)
      in or3 pb_is_good_1 pb_is_good_2)"

definition regex :: "(string \<Rightarrow> 'a option \<Rightarrow> bool option) \<Rightarrow> 'a Interrogator \<Rightarrow> bool option list" where
  "regex str_contains I =
     map (regex_row str_contains (ig_na_pass I) (ig_pattern I) (ig_column I)) (rows (ig_x I))"

section \<open>Thresholds\<close>

text \<open>
  Modelled from the spec: the module \<open>pointblank.thresholds\<close>, with the class
  \<open>Thresholds\<close>, its method \<open>_threshold_result\<close> and the function
  \<open>_convert_abs_count_to_fraction\<close>, is not among the sources; validate.py only
  calls them. The spec: a threshold configuration has up to three independent levels
  (warn, stop, notify), each an absolute failing-unit count or a failing fraction; a
  level is exceeded when the observed failing count or fraction meets or exceeds the
  configured bound; unset levels never trigger.
\<close>

datatype level_bound = AbsoluteCount nat | FailFraction rat

text \<open>
  Modelled from the spec: the class \<open>Thresholds\<close>, not among the sources. Each of the
  three levels is a bound or is not set.
\<close>

record Thresholds =
  warn_at :: "level_bound option"
  stop_at :: "level_bound option"
  notify_at :: "level_bound option"

text \<open>
  Modelled from the spec: the argument \<open>level\<close> of \<open>_threshold_result\<close>, which
  validate.py passes as \<open>"warn"\<close>, \<open>"stop"\<close> or \<open>"notify"\<close>, and the bound the
  configuration holds for it.
\<close>

datatype level = Warn | Stop | Notify

fun level_at :: "Thresholds \<Rightarrow> level \<Rightarrow> level_bound option" where
  "level_at th Warn = warn_at th"
| "level_at th Stop = stop_at th"
| "level_at th Notify = notify_at th"

text \<open>
  Modelled from the spec: \<open>_convert_abs_count_to_fraction(value, test_units)\<close>, the
  fraction \<open>value / test_units\<close>, reported as \<open>0\<close> when there is no test unit.
  Fractions are exact rationals.
\<close>

definition convert_abs_count_to_fraction :: "nat \<Rightarrow> nat \<Rightarrow> rat" where
  "convert_abs_count_to_fraction val test_units =
     (if test_units = 0 then 0 else of_nat val / of_nat test_units)"

text \<open>
  Modelled from the spec: \<open>_threshold_result(fraction_failing, test_units, level)\<close>.
  The call passes the failing fraction and the number of test units, so the failing
  count an absolute bound is compared with is their product.
\<close>

definition threshold_result :: "Thresholds \<Rightarrow> rat \<Rightarrow> nat \<Rightarrow> level \<Rightarrow> bool" where
  "threshold_result th fraction_failing test_units lvl =
     (case level_at th lvl of
        None \<Rightarrow> False
      | Some (FailFraction q) \<Rightarrow> q \<le> fraction_failing
      | Some (AbsoluteCount c) \<Rightarrow> of_nat c \<le> fraction_failing * of_nat test_units)"

section \<open>The validation plan of validate.py\<close>

text \<open>
  The dataclass \<open>_ValidationInfo\<close>: every field is \<open>None\<close> until it is set. The
  fields \<open>i\<close>, \<open>n\<close>, \<open>values\<close> and \<open>extract\<close> are written \<open>step_i\<close>, \<open>step_n\<close>,
  \<open>step_values\<close> and \<open>step_extract\<close>. \<open>'tbl\<close> is the type of tables, \<open>'v\<close> that of
  the comparison operands and \<open>'p\<close> that of pre-processing callables. A processing
  time is a string (ISO 8601), a duration a number of seconds.
\<close>

record ('tbl, 'v, 'p) ValidationInfo =
  step_i :: "int option"
  i_o :: "int option"
  step_id :: "string option"
  sha1 :: "string option"
  assertion_type :: "string option"
  column :: "string option"
  step_values :: "'v option"
  inclusive :: "(bool \<times> bool) option"
  na_pass :: "bool option"
  pre :: "'p option"
  thresholds :: "Thresholds option"
  label :: "string option"
  brief :: "string option"
  active :: "bool option"
  all_passed :: "bool option"
  step_n :: "nat option"
  n_passed :: "nat option"
  n_failed :: "nat option"
  f_passed :: "rat option"
  f_failed :: "rat option"
  warn :: "bool option"
  stop :: "bool option"
  notify :: "bool option"
  tbl_checked :: "'tbl option"
  step_extract :: "'tbl option"
  time_processed :: "string option"
  proc_duration_s :: "rat option"

text \<open>
  The call \<open>_ValidationInfo(assertion_type=..., column=..., values=..., inclusive=...,
  na_pass=..., pre=..., thresholds=..., active=...)\<close> of the registration methods
  \<open>col_vals_gt\<close>, ..., \<open>col_vals_not_in_set\<close>: the plan fields are given (the methods
  for one value and for a set pass no \<open>inclusive\<close>, those for a set no \<open>na_pass\<close>),
  every other field keeps its default \<open>None\<close>.
\<close>

definition new_step ::
  "string \<Rightarrow> string \<Rightarrow> 'v \<Rightarrow> (bool \<times> bool) option \<Rightarrow> bool option \<Rightarrow> 'p option \<Rightarrow> Thresholds \<Rightarrow> bool
     \<Rightarrow> ('tbl, 'v, 'p) ValidationInfo" where
  "new_step ty col vals incl na p th act =
     \<lparr>step_i = None, i_o = None, step_id = None, sha1 = None,
      assertion_type = Some ty, column = Some col, step_values = Some vals,
      inclusive = incl, na_pass = na, pre = p, thresholds = Some th,
      label = None, brief = None, active = Some act,
      all_passed = None, step_n = None, n_passed = None, n_failed = None,
      f_passed = None, f_failed = None, warn = None, stop = None, notify = None,
      tbl_checked = None, step_extract = None, time_processed = None,
      proc_duration_s = None\<rparr>"

text \<open>
  The dataclass \<open>Validate\<close> after \<open>__post_init__\<close> (its \<open>label\<close> and \<open>thresholds\<close>
  written \<open>plan_label\<close> and \<open>plan_thresholds\<close>): the table, the labels, the default
  thresholds, the two times of the run and the list of steps.
\<close>

record ('tbl, 'v, 'p) Validate =
  data :: 'tbl
  tbl_name :: "string option"
  plan_label :: "string option"
  plan_thresholds :: Thresholds
  time_start :: "rat option"
  time_end :: "rat option"
  validation_info :: "('tbl, 'v, 'p) ValidationInfo list"

definition Validate_post_init ::
  "'tbl \<Rightarrow> string option \<Rightarrow> string option \<Rightarrow> Thresholds \<Rightarrow> ('tbl, 'v, 'p) Validate" where
  "Validate_post_init d nm lbl th =
     \<lparr>data = d, tbl_name = nm, plan_label = lbl, plan_thresholds = th,
      time_start = None, time_end = None, validation_info = []\<rparr>"

text \<open>\<open>_add_validation\<close>: the step gets the index \<open>len + 1\<close> and is appended.\<close>

definition add_validation ::
  "('tbl, 'v, 'p) Validate \<Rightarrow> ('tbl, 'v, 'p) ValidationInfo \<Rightarrow> ('tbl, 'v, 'p) Validate" where
  "add_validation V validation =
     V\<lparr>validation_info :=
         validation_info V @ [validation\<lparr>step_i := Some (int (length (validation_info V)) + 1)\<rparr>]\<rparr>"

text \<open>
  Two of the registration methods. The step takes the thresholds given to the method
  or, when none are given, those of the plan.
\<close>

definition col_vals_gt ::
  "('tbl, 'v, 'p) Validate \<Rightarrow> string \<Rightarrow> 'v \<Rightarrow> bool \<Rightarrow> 'p option \<Rightarrow> Thresholds option \<Rightarrow> bool
     \<Rightarrow> ('tbl, 'v, 'p) Validate" where
  "col_vals_gt V col val na p th act =
     add_validation V
       (new_step ''col_vals_gt'' col val None (Some na) p
          (case th of None \<Rightarrow> plan_thresholds V | Some t \<Rightarrow> t) act)"

definition col_vals_in_set ::
  "('tbl, 'v, 'p) Validate \<Rightarrow> string \<Rightarrow> 'v \<Rightarrow> 'p option \<Rightarrow> Thresholds option \<Rightarrow> bool
     \<Rightarrow> ('tbl, 'v, 'p) Validate" where
  "col_vals_in_set V col vals p th act =
     add_validation V
       (new_step ''col_vals_in_set'' col vals None None p
          (case th of None \<Rightarrow> plan_thresholds V | Some t \<Rightarrow> t) act)"

text \<open>
  What \<open>interrogate\<close> takes from outside validate.py, as parameters: the
  pre-processing stage (it inspects the source text of the callable), the constant
  tables of \<open>pointblank._constants\<close>, the step executors and \<open>NumberOfTestUnits\<close>
  of \<open>pointblank._comparison\<close>, the reading of the \<open>pb_is_good_\<close> column of a result
  table as a list, the extraction of its failing rows, and the formatting of a time.
  A collaborator that raises returns \<open>Inl\<close>.
\<close>

record ('tbl, 'v, 'p) collaborators =
  apply_pre :: "'p \<Rightarrow> 'tbl \<Rightarrow> error + 'tbl"
  TYPE_METHOD_MAP :: "string \<Rightarrow> string option"
  COMPARE_TYPE_MAP :: "string \<Rightarrow> string option"
  COMPATIBLE_TYPES :: "string \<Rightarrow> string list option"
  ROW_BASED_VALIDATION_TYPES :: "string list"
  get_test_units :: "'tbl \<Rightarrow> string option \<Rightarrow> error + nat"
  ColValsCompareOne :: "'tbl \<Rightarrow> ('tbl, 'v, 'p) ValidationInfo \<Rightarrow> string \<Rightarrow> string list \<Rightarrow> error + 'tbl"
  ColValsCompareTwo :: "'tbl \<Rightarrow> ('tbl, 'v, 'p) ValidationInfo \<Rightarrow> string \<Rightarrow> string list \<Rightarrow> error + 'tbl"
  ColValsCompareSet :: "'tbl \<Rightarrow> ('tbl, 'v, 'p) ValidationInfo \<Rightarrow> bool \<Rightarrow> string list \<Rightarrow> error + 'tbl"
  pb_is_good_list :: "'tbl \<Rightarrow> bool option list"
  failing_rows :: "'tbl \<Rightarrow> 'tbl"
  isoformat :: "rat \<Rightarrow> string"

text \<open>
  The body of the loop of \<open>interrogate\<close> for an active step, from the copy of the
  table to the extract. \<open>results_tbl\<close> is the local variable of that name: it is
  assigned under one of three tests of \<open>compare_type\<close> (at most one of which holds)
  and otherwise keeps what an earlier step left, or is unbound. Python's \<open>all\<close> is
  true when every element is \<open>True\<close>; \<open>count\<close> counts the elements equal to its
  argument. The step and the new \<open>results_tbl\<close> are returned.
\<close>

definition or_raise :: "'a option \<Rightarrow> error \<Rightarrow> error + 'a" where
  "or_raise v e = (case v of None \<Rightarrow> Inl e | Some a \<Rightarrow> Inr a)"

definition interrogate_active ::
  "('tbl, 'v, 'p) collaborators \<Rightarrow> 'tbl \<Rightarrow> 'tbl option \<Rightarrow> ('tbl, 'v, 'p) ValidationInfo
     \<Rightarrow> error + (('tbl, 'v, 'p) ValidationInfo \<times> 'tbl option)" where
  "interrogate_active E df results_tbl validation =
     bind_err (case pre validation of None \<Rightarrow> Inr df | Some p \<Rightarrow> apply_pre E p df) (\<lambda>df_step.
     bind_err (or_raise (assertion_type validation) KeyError) (\<lambda>ty.
     bind_err (or_raise (TYPE_METHOD_MAP E ty) KeyError) (\<lambda>comparison.
     bind_err (or_raise (COMPARE_TYPE_MAP E comparison) KeyError) (\<lambda>compare_type.
     let compatible_types = (case COMPATIBLE_TYPES E comparison of None \<Rightarrow> [] | Some ts \<Rightarrow> ts) in
     bind_err (get_test_units E df_step (column validation)) (\<lambda>units.
     bind_err
       (if compare_type = ''COMPARE_ONE''
        then map_sum id Some (ColValsCompareOne E df_step validation comparison compatible_types)
        else if compare_type = ''COMPARE_TWO''
        then map_sum id Some (ColValsCompareTwo E df_step validation comparison compatible_types)
        else if compare_type = ''COMPARE_SET''
        then map_sum id Some
               (ColValsCompareSet E df_step validation (comparison = ''in_set'') compatible_types)
        else Inr results_tbl) (\<lambda>results_tbl.
     bind_err (or_raise results_tbl UnboundLocalError) (\<lambda>tbl.
     let results_list = pb_is_good_list E tbl;
         n = length results_list;
         passed = count_list results_list (Some True);
         failed = count_list results_list (Some False);
         fraction_passed = convert_abs_count_to_fraction passed n;
         fraction_failed = convert_abs_count_to_fraction failed n
     in
     bind_err (or_raise (thresholds validation) AttributeError) (\<lambda>threshold.
     Inr (validation
            \<lparr>all_passed := Some (list_all (\<lambda>b. b = Some True) results_list),
             step_n := Some n,
             n_passed := Some passed,
             n_failed := Some failed,
             f_passed := Some fraction_passed,
             f_failed := Some fraction_failed,
             warn := Some (threshold_result threshold fraction_failed n Warn),
             stop := Some (threshold_result threshold fraction_failed n Stop),
             notify := Some (threshold_result threshold fraction_failed n Notify),
             tbl_checked := Some tbl,
             step_extract := (if ty \<in> set (ROW_BASED_VALIDATION_TYPES E)
                              then Some (failing_rows E tbl) else step_extract validation)\<rparr>,
          Some tbl)))))))))"

text \<open>
  The two assignments that end the processing of a step, active or not: the duration
  between the two readings of the clock and the processing time, the second reading.
\<close>

definition record_times ::
  "('tbl, 'v, 'p) collaborators \<Rightarrow> rat \<Rightarrow> rat \<Rightarrow> ('tbl, 'v, 'p) ValidationInfo
     \<Rightarrow> ('tbl, 'v, 'p) ValidationInfo" where
  "record_times E start_time end_time validation =
     validation\<lparr>proc_duration_s := Some (end_time - start_time),
                time_processed := Some (isoformat E end_time)\<rparr>"

text \<open>
  The loop of \<open>interrogate\<close>. \<open>clock\<close> gives the successive readings of
  \<open>datetime.now\<close>, \<open>j\<close> counts the readings taken so far: each step reads the clock
  twice. A step that is not active gets its duration and its processing time and
  nothing else (\<open>continue\<close>); an active step gets them after its results. An
  exception ends the run.
\<close>

fun interrogate_loop ::
  "('tbl, 'v, 'p) collaborators \<Rightarrow> (nat \<Rightarrow> rat) \<Rightarrow> 'tbl \<Rightarrow> nat \<Rightarrow> 'tbl option
     \<Rightarrow> ('tbl, 'v, 'p) ValidationInfo list \<Rightarrow> error + ('tbl, 'v, 'p) ValidationInfo list" where
  "interrogate_loop E clock df j results_tbl [] = Inr []"
| "interrogate_loop E clock df j results_tbl (validation # rest) =
     (let start_time = clock j in
      if active validation \<noteq> Some True
      then (let end_time = clock (j + 1);
                validation = record_times E start_time end_time validation
            in bind_err (interrogate_loop E clock df (j + 2) results_tbl rest)
                 (\<lambda>rest. Inr (validation # rest)))
      else bind_err (interrogate_active E df results_tbl validation) (\<lambda>(validation, results_tbl).
             let end_time = clock (j + 1);
                 validation = record_times E start_time end_time validation
             in bind_err (interrogate_loop E clock df (j + 2) results_tbl rest)
                  (\<lambda>rest. Inr (validation # rest))))"

definition interrogate ::
  "('tbl, 'v, 'p) collaborators \<Rightarrow> (nat \<Rightarrow> rat) \<Rightarrow> ('tbl, 'v, 'p) Validate
     \<Rightarrow> error + ('tbl, 'v, 'p) Validate" where
  "interrogate E clock V =
     bind_err (interrogate_loop E clock (data V) 1 None (validation_info V)) (\<lambda>steps.
       Inr (V\<lparr>time_start := Some (clock 0),
              validation_info := steps,
              time_end := Some (clock (2 * length (validation_info V) + 1))\<rparr>))"

text \<open>
  \<open>_get_validation_dict(i, attr)\<close>. The argument \<open>i\<close> is an integer, a list of
  integers or \<open>None\<close>; an integer becomes the list holding it. The dictionary is
  built step by step, a later step replacing the entry of an earlier one with the same
  key. \<open>getattr(validation, attr)\<close> is the field's selector applied to the step.
\<close>

datatype step_sel = AllSteps | OneStep int | Steps "int list"

fun as_index_list :: "step_sel \<Rightarrow> int list option" where
  "as_index_list AllSteps = None"
| "as_index_list (OneStep j) = Some [j]"
| "as_index_list (Steps js) = Some js"

definition dict_of :: "('k \<times> 'b) list \<Rightarrow> ('k \<Rightarrow> 'b option)" where
  "dict_of items = fold (\<lambda>(k, v) m. m(k \<mapsto> v)) items Map.empty"

definition get_validation_dict ::
  "('tbl, 'v, 'p) Validate \<Rightarrow> step_sel \<Rightarrow> (('tbl, 'v, 'p) ValidationInfo \<Rightarrow> 'b)
     \<Rightarrow> (int option \<Rightarrow> 'b option)" where
  "get_validation_dict V i attr =
     (case as_index_list i of
        None \<Rightarrow> dict_of (map (\<lambda>validation. (step_i validation, attr validation)) (validation_info V))
      | Some js \<Rightarrow>
          dict_of (map (\<lambda>validation. (step_i validation, attr validation))
                     (filter (\<lambda>validation. step_i validation \<in> Some ` set js) (validation_info V))))"

text \<open>The accessors keyed by step index.\<close>

definition Validate_n :: "('tbl, 'v, 'p) Validate \<Rightarrow> step_sel \<Rightarrow> (int option \<Rightarrow> nat option option)" where
  "Validate_n V i = get_validation_dict V i step_n"

definition Validate_n_passed :: "('tbl, 'v, 'p) Validate \<Rightarrow> step_sel \<Rightarrow> (int option \<Rightarrow> nat option option)" where
  "Validate_n_passed V i = get_validation_dict V i n_passed"

definition Validate_n_failed :: "('tbl, 'v, 'p) Validate \<Rightarrow> step_sel \<Rightarrow> (int option \<Rightarrow> nat option option)" where
  "Validate_n_failed V i = get_validation_dict V i n_failed"

definition Validate_f_passed :: "('tbl, 'v, 'p) Validate \<Rightarrow> step_sel \<Rightarrow> (int option \<Rightarrow> rat option option)" where
  "Validate_f_passed V i = get_validation_dict V i f_passed"

definition Validate_f_failed :: "('tbl, 'v, 'p) Validate \<Rightarrow> step_sel \<Rightarrow> (int option \<Rightarrow> rat option option)" where
  "Validate_f_failed V i = get_validation_dict V i f_failed"

definition Validate_warn :: "('tbl, 'v, 'p) Validate \<Rightarrow> step_sel \<Rightarrow> (int option \<Rightarrow> bool option option)" where
  "Validate_warn V i = get_validation_dict V i warn"

definition Validate_stop :: "('tbl, 'v, 'p) Validate \<Rightarrow> step_sel \<Rightarrow> (int option \<Rightarrow> bool option option)" where
  "Validate_stop V i = get_validation_dict V i stop"

definition Validate_notify :: "('tbl, 'v, 'p) Validate \<Rightarrow> step_sel \<Rightarrow> (int option \<Rightarrow> bool option option)" where
  "Validate_notify V i = get_validation_dict V i notify"

definition get_data_extracts :: "('tbl, 'v, 'p) Validate \<Rightarrow> step_sel \<Rightarrow> (int option \<Rightarrow> 'tbl option option)" where
  "get_data_extracts V i = get_validation_dict V i step_extract"

section \<open>Properties of the Comparator\<close>

lemma bind_err_Inr_iff:
  "bind_err r f = Inr y \<longleftrightarrow> (\<exists>x. r = Inr x \<and> f x = Inr y)"
  by (cases r) (simp_all add: bind_err_def)

lemma or_raise_Inr_iff: "or_raise v e = Inr a \<longleftrightarrow> v = Some a"
  by (cases v) (simp_all add: or_raise_def)

lemma ensure_operand_scalar:
  "ensure_operand (PyNum v) n name = Inr (PyList (replicate n (PyNum v)))"
  by (simp add: ensure_operand_def)

lemma ensure_operand_list:
  "ensure_operand (PyList vs) n name =
     (if length vs = n then Inr (PyList vs) else Inl (LengthMismatch name))"
  by (simp add: ensure_operand_def)

lemma ensure_operand_none: "ensure_operand PyNone n name = Inr PyNone"
  by (simp add: ensure_operand_def)

lemma ensure_operand_cases:
  "ensure_operand v n name =
     (case v of
        PyNone \<Rightarrow> Inr PyNone
      | PyNum a \<Rightarrow> Inr (PyList (replicate n (PyNum a)))
      | PyList vs \<Rightarrow> if length vs = n then Inr (PyList vs) else Inl (LengthMismatch name))"
  by (cases v) (simp_all add: ensure_operand_def)

text \<open>
  Claim C8. Constructing a Comparator normalises \<open>x\<close> to a list of some length
  \<open>n\<close>. When every supplied operand (\<open>compare\<close>, \<open>low\<close>, \<open>high\<close>) is a scalar or
  a list of exactly \<open>n\<close> elements, the construction succeeds: each scalar operand has
  become the list of \<open>n\<close> copies of it, each list operand and each operand that was not
  supplied is unchanged. When some operand is a list of another length, the
  construction fails with the length-mismatch error.
\<close>

theorem Comparator_operands_broadcast_or_mismatch:
  fixes x cmp lo hi :: pyval
  defines "n \<equiv> length (x_as_list x)"
  defines "fits \<equiv> \<lambda>v. case v of PyList vs \<Rightarrow> length vs = n | _ \<Rightarrow> True"
  defines "broadcast \<equiv> \<lambda>v. case v of PyNum a \<Rightarrow> PyList (replicate n (PyNum a)) | _ \<Rightarrow> v"
  defines "c \<equiv> \<lparr>cmp_x = x, cmp_compare = cmp, cmp_low = lo, cmp_high = hi\<rparr>"
  shows "(fits cmp \<and> fits lo \<and> fits hi \<longrightarrow>
            post_init c = Inr \<lparr>cmp_x = PyList (x_as_list x), cmp_compare = broadcast cmp,
                               cmp_low = broadcast lo, cmp_high = broadcast hi\<rparr>)
       \<and> (\<not> (fits cmp \<and> fits lo \<and> fits hi) \<longrightarrow>
            (\<exists>name. post_init c = Inl (LengthMismatch name)))"
  unfolding n_def c_def fits_def broadcast_def
  by (cases cmp; cases lo; cases hi)
     (simp_all add: post_init_def bind_err_def ensure_operand_cases Let_def)

theorem Comparator_operands_witness:
  "post_init \<lparr>cmp_x = PyList [PyNum 1, PyNum 2, PyNum 3], cmp_compare = PyNum 5,
              cmp_low = PyList [PyNum 0, PyNum 0, PyNum 0], cmp_high = PyNone\<rparr>
     = Inr \<lparr>cmp_x = PyList [PyNum 1, PyNum 2, PyNum 3],
            cmp_compare = PyList [PyNum 5, PyNum 5, PyNum 5],
            cmp_low = PyList [PyNum 0, PyNum 0, PyNum 0], cmp_high = PyNone\<rparr>
   \<and> (\<exists>name. post_init \<lparr>cmp_x = PyList [PyNum 1, PyNum 2, PyNum 3],
              cmp_compare = PyList [PyNum 5, PyNum 5], cmp_low = PyNone, cmp_high = PyNone\<rparr>
           = Inl (LengthMismatch name))"
  using Comparator_operands_broadcast_or_mismatch
          [where x = "PyList [PyNum 1, PyNum 2, PyNum 3]" and cmp = "PyNum 5"
             and lo = "PyList [PyNum 0, PyNum 0, PyNum 0]" and hi = PyNone]
        Comparator_operands_broadcast_or_mismatch
          [where x = "PyList [PyNum 1, PyNum 2, PyNum 3]" and cmp = "PyList [PyNum 5, PyNum 5]"
             and lo = PyNone and hi = PyNone]
  by (simp add: numeral_3_eq_3)

text \<open>
  After a construction, \<open>low\<close> is \<open>None\<close> or a list, never a number; so on every
  \<open>x\<close> whose first element is a number \<open>outside\<close> raises at the first comparison.
\<close>

lemma post_init_bounds_not_numbers:
  assumes "post_init c0 = Inr c"
  shows "cmp_x c = PyList (x_as_list (cmp_x c0)) \<and> (\<forall>a. cmp_low c \<noteq> PyNum a)"
  using assms
  by (cases "cmp_low c0")
     (auto simp add: post_init_def Let_def bind_err_Inr_iff ensure_operand_cases
           split: pyval.splits if_splits)

lemma py_lt_number_not_number:
  "\<forall>b. lo \<noteq> PyNum b \<Longrightarrow> py_lt (PyNum a) lo = Inl TypeError"
  by (cases lo) simp_all

lemma Comparator_outside_raises_on_numbers:
  assumes "post_init c0 = Inr c" and "x_as_list (cmp_x c0) = PyNum a # rest"
  shows "Comparator_outside c = Inl TypeError"
proof -
  from post_init_bounds_not_numbers [OF assms(1)] assms(2)
  have x: "cmp_x c = PyList (PyNum a # rest)" and lo: "\<forall>b. cmp_low c \<noteq> PyNum b"
    by simp_all
  show ?thesis
    by (simp add: Comparator_outside_def x py_lt_number_not_number [OF lo] bind_err_def)
qed

text \<open>
  Claim C4. \<open>Comparator(x=[1], low=0, high=2).outside()\<close>: the construction broadcasts
  \<open>low\<close> to the list \<open>[0]\<close>, and \<open>outside\<close> then compares the element \<open>1\<close> with that
  list, which raises \<open>TypeError\<close>; no list of booleans is returned.
\<close>

theorem Comparator_outside_raises_TypeError:
  "bind_err (post_init \<lparr>cmp_x = PyList [PyNum 1], cmp_compare = PyNone,
                          cmp_low = PyNum 0, cmp_high = PyNum 2\<rparr>) Comparator_outside
     = Inl TypeError"
  by (simp add: post_init_def bind_err_def ensure_operand_def Comparator_outside_def)

section \<open>Properties of the Interrogator\<close>

lemma and3_Some [simp]: "and3 (Some a) (Some b) = Some (a \<and> b)"
  by (cases a; cases b) simp_all

lemma or3_Some [simp]: "or3 (Some a) (Some b) = Some (a \<or> b)"
  by (cases a; cases b) simp_all

lemma and3_True [simp]: "and3 x (Some True) = x" "and3 (Some True) x = x"
  by (cases x; simp)+

lemma or3_False [simp]: "or3 x (Some False) = x" "or3 (Some False) x = x"
  by (cases x; simp)+

text \<open>
  Claim C1. A Polars table with the column \<open>x = [7, null]\<close>, interrogated by \<open>gt\<close>
  against the literal \<open>5\<close> with \<open>na_pass = False\<close>: the second value of
  \<open>pb_is_good_\<close> is null, neither \<open>True\<close> nor \<open>False\<close> (the comparison of the null
  cell is null, and its disjunction with two false columns stays null).
\<close>

theorem gt_polars_null_cell_gives_null:
  "gt \<lparr>ig_x = \<lparr>kind = Polars, rows = [(\<lambda>n. None)(''x'' := Some 7), (\<lambda>n. None)]\<rparr>,
       ig_column = ''x'', ig_compare = Literal (5::int), ig_set = [], ig_pattern = [],
       ig_low = Literal 0, ig_high = Literal 0, ig_inclusive = (True, True),
       ig_na_pass = False\<rparr>
     = [Some True, None]"
  by (simp add: gt_def compare_one_row_def)

text \<open>
  On the same table \<open>lt\<close>, \<open>ge\<close>, \<open>le\<close> and \<open>between\<close> give a null as well, while
  \<open>outside\<close>, which replaces a null comparison result by false, never does; nor does
  \<open>gt\<close> on a Pandas frame, where no comparison is null.
\<close>

lemma siblings_polars_null_cell_give_null:
  fixes I :: "int Interrogator"
  defines "I \<equiv> \<lparr>ig_x = \<lparr>kind = Polars, rows = [(\<lambda>n. None)(''x'' := Some 7), (\<lambda>n. None)]\<rparr>,
                 ig_column = ''x'', ig_compare = Literal 5, ig_set = [], ig_pattern = [],
                 ig_low = Literal 2, ig_high = Literal 8, ig_inclusive = (True, True),
                 ig_na_pass = False\<rparr>"
  shows "lt I = [Some False, None] \<and> ge I = [Some True, None] \<and> le I = [Some False, None]
       \<and> between I = [Some True, None]"
  by (simp add: I_def lt_def ge_def le_def between_def compare_one_row_def between_row_def)

lemma outside_never_null: "None \<notin> set (outside I)"
proof -
  have "outside_row k na incl c lo hi r \<noteq> None" for k na incl c and lo hi :: "'a operand" and r
    by (cases "get_compare_expr_nw lo r"; cases "get_compare_expr_nw hi r"; cases "r c"; cases k;
        cases lo; cases hi)
       (auto simp add: outside_row_def when_then_otherwise_def Let_def)
  note row = this
  show ?thesis
  proof
    assume "None \<in> set (outside I)"
    then obtain r where "outside_row (kind (ig_x I)) (ig_na_pass I) (ig_inclusive I)
                           (ig_column I) (ig_low I) (ig_high I) r = None"
      by (auto simp add: outside_def dest: sym)
    with row show False by blast
  qed
qed

lemma gt_pandas_never_null: "kind (ig_x I) = Pandas \<Longrightarrow> None \<notin> set (gt I)"
proof -
  have "compare_one_row Pandas op na c cmp r \<noteq> None" for op na c and cmp :: "'a operand" and r
    by (cases "get_compare_expr_nw cmp r"; cases "r c"; cases cmp)
       (auto simp add: compare_one_row_def Let_def)
  note row = this
  assume "kind (ig_x I) = Pandas"
  show ?thesis
  proof
    assume "None \<in> set (gt I)"
    then obtain r where "compare_one_row Pandas Gt (ig_na_pass I) (ig_column I) (ig_compare I) r = None"
      using \<open>kind (ig_x I) = Pandas\<close> by (auto simp add: gt_def dest: sym)
    with row show False by blast
  qed
qed

text \<open>
  CASE 3 of \<open>ne\<close>, row by row. On a Pandas frame, and on a Polars frame without
  \<open>na_pass\<close>, a row with a null on either side is good iff \<open>na_pass\<close> and any other
  row is good iff its two values differ. On a Polars frame with \<open>na_pass\<close> a row is
  good iff one of its two cells is null.
\<close>

lemma ne_case3_row_agrees:
  "k = Pandas \<or> \<not> na \<Longrightarrow>
     ne_case3_row k na a b =
       (if a = None \<or> b = None then Some na else Some (the a \<noteq> the b))"
  by (cases k; cases a; cases b; cases na)
     (auto simp add: ne_case3_row_def when_then_otherwise_def)

lemma ne_case3_row_polars_na_pass:
  "ne_case3_row Polars True a b = Some (a = None \<or> b = None)"
  by (cases a; cases b) (simp_all add: ne_case3_row_def when_then_otherwise_def)

text \<open>
  The vectors \<open>A = [1, null, 3, null]\<close>, \<open>B = [1, 2, null, null]\<close> of the spec give
  \<open>[False, False, False, False]\<close> without \<open>na_pass\<close> and
  \<open>[False, True, True, True]\<close> with it, on both kinds of frame.
\<close>

lemma ne_case3_spec_vectors:
  fixes k :: frame_kind
  defines "t \<equiv> \<lparr>kind = k, rows = [(\<lambda>n. None)(''A'' := Some (1::int), ''B'' := Some 1),
                                    (\<lambda>n. None)(''B'' := Some 2),
                                    (\<lambda>n. None)(''A'' := Some 3),
                                    (\<lambda>n. None)]\<rparr>"
  shows "ne \<lparr>ig_x = t, ig_column = ''A'', ig_compare = Column ''B'', ig_set = [], ig_pattern = [],
             ig_low = Literal 0, ig_high = Literal 0, ig_inclusive = (True, True),
             ig_na_pass = False\<rparr> = [Some False, Some False, Some False, Some False]
       \<and> ne \<lparr>ig_x = t, ig_column = ''A'', ig_compare = Column ''B'', ig_set = [], ig_pattern = [],
             ig_low = Literal 0, ig_high = Literal 0, ig_inclusive = (True, True),
             ig_na_pass = True\<rparr> = [Some False, Some True, Some True, Some True]"
  unfolding t_def
  by (cases k)
     (simp_all add: ne_def column_has_null_values_def ne_case3_row_def when_then_otherwise_def)

text \<open>
  Claim C2. A Polars table with the columns \<open>A = [1, null]\<close> and \<open>B = [2, null]\<close>,
  interrogated by \<open>ne\<close> of \<open>A\<close> against the column \<open>B\<close> with \<open>na_pass = True\<close>: both
  columns hold a null (CASE 3), and the first row, whose two values \<open>1\<close> and \<open>2\<close> are
  not null and differ, is marked not good.
\<close>

theorem ne_polars_case3_na_pass_drops_comparison:
  "ne \<lparr>ig_x = \<lparr>kind = Polars,
                rows = [(\<lambda>n. None)(''A'' := Some 1, ''B'' := Some 2), (\<lambda>n. None)]\<rparr>,
       ig_column = ''A'', ig_compare = Column ''B'', ig_set = [], ig_pattern = [],
       ig_low = Literal (0::int), ig_high = Literal 0, ig_inclusive = (True, True),
       ig_na_pass = True\<rparr>
     = [Some False, Some True]"
  by (simp add: ne_def column_has_null_values_def ne_case3_row_def when_then_otherwise_def)

text \<open>
  Claim C3. With \<open>na_pass = True\<close>, a row whose target value is null is marked good
  by \<open>between\<close> and by \<open>outside\<close> alike, on either kind of frame and whatever the
  bounds (literals in particular) and the inclusivity; so there \<open>outside\<close> is not the
  negation of \<open>between\<close>.
\<close>

theorem between_outside_null_value_both_good:
  assumes "ig_na_pass I" and "k < length (rows (ig_x I))"
    and "(rows (ig_x I) ! k) (ig_column I) = None"
  shows "between I ! k = Some True \<and> outside I ! k = Some True
         \<and> outside I ! k \<noteq> not3 (between I ! k)"
  using assms
  by (simp add: between_def outside_def between_row_def outside_row_def Let_def
           split: operand.splits)

theorem between_outside_null_value_witness:
  "between \<lparr>ig_x = \<lparr>kind = Polars, rows = [(\<lambda>n. None)(''x'' := Some 5), (\<lambda>n. None)]\<rparr>,
            ig_column = ''x'', ig_compare = Literal (0::int), ig_set = [], ig_pattern = [],
            ig_low = Literal 2, ig_high = Literal 8, ig_inclusive = (True, True),
            ig_na_pass = True\<rparr> ! 1 = Some True
   \<and> outside \<lparr>ig_x = \<lparr>kind = Polars, rows = [(\<lambda>n. None)(''x'' := Some 5), (\<lambda>n. None)]\<rparr>,
            ig_column = ''x'', ig_compare = Literal (0::int), ig_set = [], ig_pattern = [],
            ig_low = Literal 2, ig_high = Literal 8, ig_inclusive = (True, True),
            ig_na_pass = True\<rparr> ! 1 = Some True"
  using between_outside_null_value_both_good
          [of "\<lparr>ig_x = \<lparr>kind = Polars, rows = [(\<lambda>n. None)(''x'' := Some 5), (\<lambda>n. None)]\<rparr>,
                ig_column = ''x'', ig_compare = Literal (0::int), ig_set = [], ig_pattern = [],
                ig_low = Literal 2, ig_high = Literal 8, ig_inclusive = (True, True),
                ig_na_pass = True\<rparr>" 1]
  by simp

text \<open>
  Claim C7. In the table \<open>regex\<close> returns, a row whose target value is null has
  \<open>pb_is_good_\<close> equal to \<open>na_pass\<close>, whatever the backend's match function gives
  (on a null cell or anywhere): the match decides nothing there. On a row whose value
  is not null, \<open>pb_is_good_\<close> is the match on that value.
\<close>

theorem regex_null_value_is_na_pass:
  assumes "k < length (rows (ig_x I))"
  shows "((rows (ig_x I) ! k) (ig_column I) = None \<longrightarrow> regex m I ! k = Some (ig_na_pass I))
       \<and> ((rows (ig_x I) ! k) (ig_column I) \<noteq> None \<longrightarrow>
            regex m I ! k = m (ig_pattern I) ((rows (ig_x I) ! k) (ig_column I)))"
  using assms
  by (cases "ig_na_pass I") (auto simp add: regex_def regex_row_def when_then_otherwise_def)

theorem regex_null_value_witness:
  "regex (\<lambda>p c. None)
     \<lparr>ig_x = \<lparr>kind = Polars, rows = [(\<lambda>n. None)(''s'' := Some ''abc''), (\<lambda>n. None)]\<rparr>,
      ig_column = ''s'', ig_compare = Literal [], ig_set = [], ig_pattern = ''a.c'',
      ig_low = Literal [], ig_high = Literal [], ig_inclusive = (True, True),
      ig_na_pass = True\<rparr> ! 1 = Some True
   \<and> regex (\<lambda>p c. Some True)
     \<lparr>ig_x = \<lparr>kind = Pandas, rows = [(\<lambda>n. None)(''s'' := Some ''abc''), (\<lambda>n. None)]\<rparr>,
      ig_column = ''s'', ig_compare = Literal [], ig_set = [], ig_pattern = ''a.c'',
      ig_low = Literal [], ig_high = Literal [], ig_inclusive = (True, True),
      ig_na_pass = False\<rparr> ! 1 = Some False"
  using regex_null_value_is_na_pass
          [of 1 "\<lparr>ig_x = \<lparr>kind = Polars, rows = [(\<lambda>n. None)(''s'' := Some ''abc''), (\<lambda>n. None)]\<rparr>,
                  ig_column = ''s'', ig_compare = Literal [], ig_set = [], ig_pattern = ''a.c'',
                  ig_low = Literal [], ig_high = Literal [], ig_inclusive = (True, True),
                  ig_na_pass = True\<rparr>" "\<lambda>p c. None"]
        regex_null_value_is_na_pass
          [of 1 "\<lparr>ig_x = \<lparr>kind = Pandas, rows = [(\<lambda>n. None)(''s'' := Some ''abc''), (\<lambda>n. None)]\<rparr>,
                  ig_column = ''s'', ig_compare = Literal [], ig_set = [], ig_pattern = ''a.c'',
                  ig_low = Literal [], ig_high = Literal [], ig_inclusive = (True, True),
                  ig_na_pass = False\<rparr>" "\<lambda>p c. Some True"]
  by simp

text \<open>
  Claim C9. The \<open>pb_is_good_\<close> column of \<open>notin\<close> is the elementwise negation of that
  of \<open>isin\<close> on the same Interrogator, and neither depends on \<open>na_pass\<close>: setting the
  flag to any value changes neither column.
\<close>

theorem notin_negates_isin_without_na_pass:
  "notin I = map not3 (isin I)
   \<and> isin (I\<lparr>ig_na_pass := b\<rparr>) = isin I
   \<and> notin (I\<lparr>ig_na_pass := b\<rparr>) = notin I"
  by (simp add: notin_def isin_def)

section \<open>Properties of the validation plan\<close>

subsection \<open>Dictionaries\<close>

lemma fold_upd_map_add:
  "fold (\<lambda>(k, v) m. m(k \<mapsto> v)) items m = m ++ map_of (rev items)"
  by (induction items arbitrary: m) (auto simp add: map_add_def fun_eq_iff split: option.splits)

lemma dict_of_map_of_rev: "dict_of items = map_of (rev items)"
  by (simp add: dict_of_def fold_upd_map_add)

lemma dict_of_Nil [simp]: "dict_of [] = Map.empty"
  by (simp add: dict_of_def)

lemma dom_dict_of: "dom (dict_of items) = fst ` set items"
  by (simp add: dict_of_map_of_rev dom_map_of_conv_image_fst)

lemma dict_of_distinct_nth:
  assumes "distinct (map fst items)" and "k < length items"
  shows "dict_of items (fst (items ! k)) = Some (snd (items ! k))"
proof -
  have "distinct (map fst (rev items))"
    using assms(1) by (simp add: rev_map [symmetric])
  moreover have "items ! k \<in> set (rev items)"
    using assms(2) by simp
  ultimately show ?thesis
    by (simp add: dict_of_map_of_rev)
qed

subsection \<open>Registration\<close>

lemma validation_info_add_validation:
  "validation_info (add_validation V s)
     = validation_info V @ [s\<lparr>step_i := Some (int (length (validation_info V)) + 1)\<rparr>]"
  by (simp add: add_validation_def)

lemma registered_steps:
  "validation_info (foldl add_validation V steps)
     = validation_info V
       @ map (\<lambda>(k, s). s\<lparr>step_i := Some (int k + 1)\<rparr>) (enumerate (length (validation_info V)) steps)"
  by (induction steps arbitrary: V) (simp_all add: validation_info_add_validation)

lemma registered_from_empty:
  assumes "validation_info V0 = []"
  shows "validation_info (foldl add_validation V0 steps)
           = map (\<lambda>(k, s). s\<lparr>step_i := Some (int k + 1)\<rparr>) (enumerate 0 steps)"
  using registered_steps [of V0 steps] assms by simp

lemma registered_nth:
  assumes "validation_info V0 = []" and "k < length steps"
  shows "validation_info (foldl add_validation V0 steps) ! k = (steps ! k)\<lparr>step_i := Some (int k + 1)\<rparr>"
  using assms by (simp add: registered_from_empty nth_enumerate_eq)

lemma registered_length:
  assumes "validation_info V0 = []"
  shows "length (validation_info (foldl add_validation V0 steps)) = length steps"
  using assms by (simp add: registered_from_empty)

lemma registered_indices:
  assumes "validation_info V0 = []"
  shows "map step_i (validation_info (foldl add_validation V0 steps))
           = map (\<lambda>k. Some (int k + 1)) [0..<length steps]"
proof (rule nth_equalityI)
  show "length (map step_i (validation_info (foldl add_validation V0 steps)))
          = length (map (\<lambda>k. Some (int k + 1)) [0..<length steps])"
    using assms by (simp add: registered_length)
next
  fix k
  assume "k < length (map step_i (validation_info (foldl add_validation V0 steps)))"
  then have k: "k < length steps"
    using assms by (simp add: registered_length)
  then show "map step_i (validation_info (foldl add_validation V0 steps)) ! k
               = map (\<lambda>k. Some (int k + 1)) [0..<length steps] ! k"
    using assms by (simp add: registered_length registered_nth)
qed

subsection \<open>The loop of interrogate\<close>

lemma interrogate_loop_Cons_Inr:
  assumes "interrogate_loop E clock df j res (v # vs) = Inr ws"
  shows "\<exists>w ws' res'. ws = w # ws'
           \<and> interrogate_loop E clock df (j + 2) res' vs = Inr ws'
           \<and> (if active v \<noteq> Some True then w = record_times E (clock j) (clock (j + 1)) v
                else \<exists>v1. interrogate_active E df res v = Inr (v1, res') \<and> w = record_times E (clock j) (clock (j + 1)) v1)"
  using assms
  by (auto simp add: Let_def bind_err_Inr_iff split: if_splits)

lemma interrogate_loop_nth:
  assumes "interrogate_loop E clock df j res vs = Inr ws" and "k < length vs"
  shows "length ws = length vs
       \<and> (if active (vs ! k) \<noteq> Some True then ws ! k = record_times E (clock (j + 2 * k)) (clock (j + 2 * k + 1)) (vs ! k)
           else \<exists>res0 v1 res1. interrogate_active E df res0 (vs ! k) = Inr (v1, res1)
                  \<and> ws ! k = record_times E (clock (j + 2 * k)) (clock (j + 2 * k + 1)) v1)"
  using assms
proof (induction vs arbitrary: j res ws k)
  case Nil
  then show ?case by simp
next
  case (Cons v vs)
  from interrogate_loop_Cons_Inr [OF Cons.prems(1)]
  obtain w ws' res' where ws: "ws = w # ws'"
    and rest: "interrogate_loop E clock df (j + 2) res' vs = Inr ws'"
    and w: "if active v \<noteq> Some True then w = record_times E (clock j) (clock (j + 1)) v
            else \<exists>v1. interrogate_active E df res v = Inr (v1, res') \<and> w = record_times E (clock j) (clock (j + 1)) v1"
    by blast
  show ?case
  proof (cases k)
    case 0
    have "length ws' = length vs"
    proof (cases vs)
      case Nil
      with rest show ?thesis by simp
    next
      case (Cons a list)
      then have "0 < length vs" by simp
      from Cons.IH [OF rest this] show ?thesis by simp
    qed
    with 0 ws w show ?thesis by fastforce
  next
    case (Suc k')
    then have k': "k' < length vs" using Cons.prems(2) by simp
    have idx: "j + 2 + 2 * k' = j + 2 * k"
      using Suc by simp
    have nth: "ws ! k = ws' ! k'" "(v # vs) ! k = vs ! k'"
      using Suc ws by simp_all
    have len: "length ws = length (v # vs) \<longleftrightarrow> length ws' = length vs"
      using ws by simp
    from Cons.IH [OF rest k'] show ?thesis
      unfolding idx nth len .
  qed
qed

lemma interrogate_active_Inr:
  assumes "interrogate_active E df res v = Inr (v1, res1)"
  shows "\<exists>th rs. thresholds v = Some th
           \<and> step_i v1 = step_i v
           \<and> step_n v1 = Some (length rs)
           \<and> n_failed v1 = Some (count_list rs (Some False))
           \<and> f_failed v1 = Some (convert_abs_count_to_fraction (count_list rs (Some False)) (length rs))
           \<and> warn v1 = Some (threshold_result th
                  (convert_abs_count_to_fraction (count_list rs (Some False)) (length rs)) (length rs) Warn)
           \<and> stop v1 = Some (threshold_result th
                  (convert_abs_count_to_fraction (count_list rs (Some False)) (length rs)) (length rs) Stop)
           \<and> notify v1 = Some (threshold_result th
                  (convert_abs_count_to_fraction (count_list rs (Some False)) (length rs)) (length rs) Notify)"
  using assms
  unfolding interrogate_active_def Let_def bind_err_Inr_iff or_raise_Inr_iff
  by (elim exE conjE) auto

lemma record_times_fields [simp]:
  "step_i (record_times E a b v) = step_i v"
  "all_passed (record_times E a b v) = all_passed v"
  "step_n (record_times E a b v) = step_n v"
  "n_passed (record_times E a b v) = n_passed v"
  "n_failed (record_times E a b v) = n_failed v"
  "f_passed (record_times E a b v) = f_passed v"
  "f_failed (record_times E a b v) = f_failed v"
  "warn (record_times E a b v) = warn v"
  "stop (record_times E a b v) = stop v"
  "notify (record_times E a b v) = notify v"
  "tbl_checked (record_times E a b v) = tbl_checked v"
  "step_extract (record_times E a b v) = step_extract v"
  "proc_duration_s (record_times E a b v) = Some (b - a)"
  "time_processed (record_times E a b v) = Some (isoformat E b)"
  by (simp_all add: record_times_def)

lemma interrogate_Inr:
  assumes "interrogate E clock V = Inr V'"
  shows "\<exists>ws. interrogate_loop E clock (data V) 1 None (validation_info V) = Inr ws
           \<and> validation_info V' = ws"
  using assms by (auto simp add: interrogate_def bind_err_Inr_iff)

lemma interrogate_nth:
  assumes "interrogate E clock V = Inr V'" and "k < length (validation_info V)"
  shows "length (validation_info V') = length (validation_info V)
       \<and> (if active (validation_info V ! k) \<noteq> Some True
           then validation_info V' ! k
                  = record_times E (clock (2 * k + 1)) (clock (2 * k + 2)) (validation_info V ! k)
           else \<exists>res0 v1 res1. interrogate_active E (data V) res0 (validation_info V ! k) = Inr (v1, res1)
                  \<and> validation_info V' ! k = record_times E (clock (2 * k + 1)) (clock (2 * k + 2)) v1)"
proof -
  from interrogate_Inr [OF assms(1)] obtain ws
    where loop: "interrogate_loop E clock (data V) 1 None (validation_info V) = Inr ws"
      and ws: "validation_info V' = ws"
    by blast
  have idx: "1 + 2 * k = 2 * k + 1" "2 * k + 1 + 1 = 2 * k + 2"
    by simp_all
  from interrogate_loop_nth [OF loop assms(2)] show ?thesis
    unfolding ws idx .
qed

lemma interrogate_step_i:
  assumes "interrogate E clock V = Inr V'"
  shows "map step_i (validation_info V') = map step_i (validation_info V)"
proof (rule nth_equalityI)
  show "length (map step_i (validation_info V')) = length (map step_i (validation_info V))"
  proof (cases "validation_info V")
    case Nil
    with interrogate_Inr [OF assms] show ?thesis by auto
  next
    case (Cons a list)
    then have "0 < length (validation_info V)" by simp
    from interrogate_nth [OF assms this] show ?thesis by simp
  qed
next
  fix k
  assume "k < length (map step_i (validation_info V'))"
  then have k': "k < length (validation_info V')" by simp
  have k: "k < length (validation_info V)"
  proof (cases "validation_info V")
    case Nil
    with interrogate_Inr [OF assms] k' show ?thesis by auto
  next
    case (Cons a list)
    then have "0 < length (validation_info V)" by simp
    from interrogate_nth [OF assms this] k' show ?thesis by simp
  qed
  from interrogate_nth [OF assms k]
  have "step_i (validation_info V' ! k) = step_i (validation_info V ! k)"
    by (auto split: if_splits dest: interrogate_active_Inr)
  with k k' show "map step_i (validation_info V') ! k = map step_i (validation_info V) ! k"
    by simp
qed

lemma filter_distinct_key:
  assumes "distinct (map f xs)" and "k < length xs"
  shows "filter (\<lambda>x. f x = f (xs ! k)) xs = [xs ! k]"
  using assms
proof (induction xs arbitrary: k)
  case Nil
  then show ?case by simp
next
  case (Cons x xs)
  show ?case
  proof (cases k)
    case 0
    have "f x \<notin> f ` set xs"
      using Cons.prems(1) by simp
    then have "\<forall>y \<in> set xs. f y \<noteq> f x"
      by (metis imageI)
    then have "filter (\<lambda>y. f y = f x) xs = []"
      by (simp add: filter_empty_conv)
    with 0 show ?thesis by simp
  next
    case (Suc k')
    then have k': "k' < length xs" using Cons.prems(2) by simp
    then have "f (xs ! k') \<in> f ` set xs" by simp
    then have "f x \<noteq> f (xs ! k')" using Cons.prems(1) by auto
    with Cons.IH [OF _ k'] Cons.prems(1) Suc show ?thesis by simp
  qed
qed

text \<open>
  A plan built by registration and then interrogated: its steps still carry the
  indices \<open>1, ..., n\<close>.
\<close>

lemma post_run_indices:
  assumes "validation_info V0 = []" and "V = foldl add_validation V0 steps"
    and "interrogate E clock V = Inr V'"
  shows "map step_i (validation_info V') = map (\<lambda>k. Some (int k + 1)) [0..<length steps]"
  using interrogate_step_i [OF assms(3)] registered_indices [OF assms(1)] assms(2) by simp

lemma post_run_length:
  assumes "validation_info V0 = []" and "V = foldl add_validation V0 steps"
    and "interrogate E clock V = Inr V'"
  shows "length (validation_info V') = length steps"
  using post_run_indices [OF assms] by (metis length_map length_upt minus_nat.diff_0)

lemma post_run_step_i:
  assumes "validation_info V0 = []" and "V = foldl add_validation V0 steps"
    and "interrogate E clock V = Inr V'" and "k < length steps"
  shows "step_i (validation_info V' ! k) = Some (int k + 1)"
proof -
  have "map step_i (validation_info V') ! k = map (\<lambda>k. Some (int k + 1)) [0..<length steps] ! k"
    using post_run_indices [OF assms(1-3)] by simp
  then show ?thesis
    using assms(4) post_run_length [OF assms(1-3)] by simp
qed

lemma post_run_distinct:
  assumes "validation_info V0 = []" and "V = foldl add_validation V0 steps"
    and "interrogate E clock V = Inr V'"
  shows "distinct (map step_i (validation_info V'))"
  unfolding post_run_indices [OF assms]
  by (simp add: distinct_map inj_on_def)

lemma get_validation_dict_all:
  "get_validation_dict V AllSteps attr
     = dict_of (map (\<lambda>v. (step_i v, attr v)) (validation_info V))"
  by (simp add: get_validation_dict_def)

lemma get_validation_dict_steps:
  "get_validation_dict V (Steps js) attr
     = dict_of (map (\<lambda>v. (step_i v, attr v))
                  (filter (\<lambda>v. step_i v \<in> Some ` set js) (validation_info V)))"
  by (simp add: get_validation_dict_def)

lemma get_validation_dict_one:
  "get_validation_dict V (OneStep j) attr = get_validation_dict V (Steps [j]) attr"
  by (simp add: get_validation_dict_def)

lemma get_validation_dict_one_registered:
  assumes "validation_info V0 = []" and "V = foldl add_validation V0 steps"
    and "interrogate E clock V = Inr V'" and "k < length steps"
  shows "get_validation_dict V' (OneStep (int k + 1)) attr
           = [Some (int k + 1) \<mapsto> attr (validation_info V' ! k)]"
proof -
  have len: "k < length (validation_info V')"
    using assms(4) post_run_length [OF assms(1-3)] by simp
  have key: "step_i (validation_info V' ! k) = Some (int k + 1)"
    by (rule post_run_step_i [OF assms])
  have "filter (\<lambda>v. step_i v \<in> Some ` set [int k + 1]) (validation_info V')
          = filter (\<lambda>v. step_i v = step_i (validation_info V' ! k)) (validation_info V')"
    by (simp add: key)
  also have "\<dots> = [validation_info V' ! k]"
    by (rule filter_distinct_key [OF post_run_distinct [OF assms(1-3)] len])
  finally show ?thesis
    by (simp add: get_validation_dict_def dict_of_def key)
qed

lemma new_step_fields [simp]:
  "active (new_step ty col vals incl na p th act) = Some act"
  "all_passed (new_step ty col vals incl na p th act) = None"
  "step_n (new_step ty col vals incl na p th act) = None"
  "n_passed (new_step ty col vals incl na p th act) = None"
  "n_failed (new_step ty col vals incl na p th act) = None"
  "f_passed (new_step ty col vals incl na p th act) = None"
  "f_failed (new_step ty col vals incl na p th act) = None"
  "warn (new_step ty col vals incl na p th act) = None"
  "stop (new_step ty col vals incl na p th act) = None"
  "notify (new_step ty col vals incl na p th act) = None"
  "tbl_checked (new_step ty col vals incl na p th act) = None"
  "step_extract (new_step ty col vals incl na p th act) = None"
  by (simp_all add: new_step_def)

lemma count_list_replicate:
  "count_list (replicate n x) y = (if x = y then n else 0)"
  by (induction n) auto

lemma threshold_result_exceeded:
  assumes "failed \<le> units"
  shows "threshold_result th (convert_abs_count_to_fraction failed units) units lvl
           = (case level_at th lvl of
                None \<Rightarrow> False
              | Some (AbsoluteCount c) \<Rightarrow> c \<le> failed
              | Some (FailFraction q) \<Rightarrow>
                  q \<le> (if units = 0 then 0 else of_nat failed / of_nat units))"
proof (cases "level_at th lvl")
  case None
  then show ?thesis by (simp add: threshold_result_def)
next
  case (Some b)
  show ?thesis
  proof (cases b)
    case (AbsoluteCount c)
    have "(of_nat c :: rat) \<le> convert_abs_count_to_fraction failed units * of_nat units
            \<longleftrightarrow> c \<le> failed"
    proof (cases "units = 0")
      case True
      with assms show ?thesis by (simp add: convert_abs_count_to_fraction_def)
    next
      case False
      then have "convert_abs_count_to_fraction failed units * of_nat units = (of_nat failed :: rat)"
        by (simp add: convert_abs_count_to_fraction_def)
      then show ?thesis by simp
    qed
    with Some AbsoluteCount show ?thesis by (simp add: threshold_result_def)
  next
    case (FailFraction q)
    with Some show ?thesis
      by (simp add: threshold_result_def convert_abs_count_to_fraction_def)
  qed
qed

text \<open>
  Claim C5. After \<open>interrogate\<close> has returned, an active step holds its number of
  test units and of failing units, and each of its three flags tells whether the
  level of the step's thresholds is exceeded: never for a level that is not set, for
  an absolute count iff the failing count reaches it, for a fraction iff the failing
  fraction reaches it. With 100 test units and 5 failing ones a warn level of the
  fraction 0.04 gives \<open>warn = True\<close> and a warn level of the count 10 gives
  \<open>warn = False\<close>.
\<close>

theorem threshold_levels_of_active_step:
  fixes E :: "('tbl, 'v, 'p) collaborators" and V V' :: "('tbl, 'v, 'p) Validate"
  defines "exceeded \<equiv> \<lambda>bound failed units.
             case bound of
               None \<Rightarrow> False
             | Some (AbsoluteCount c) \<Rightarrow> c \<le> failed
             | Some (FailFraction q) \<Rightarrow>
                 q \<le> (if units = (0::nat) then 0 else of_nat failed / of_nat units)"
  assumes run: "interrogate E clock V = Inr V'"
    and k: "k < length (validation_info V)"
    and act: "active (validation_info V ! k) = Some True"
  shows "\<exists>th units failed.
           thresholds (validation_info V ! k) = Some th
         \<and> step_n (validation_info V' ! k) = Some units
         \<and> n_failed (validation_info V' ! k) = Some failed
         \<and> warn (validation_info V' ! k) = Some (exceeded (warn_at th) failed units)
         \<and> stop (validation_info V' ! k) = Some (exceeded (stop_at th) failed units)
         \<and> notify (validation_info V' ! k) = Some (exceeded (notify_at th) failed units)
         \<and> (units = 100 \<and> failed = 5 \<and> warn_at th = Some (FailFraction (4 / 100))
              \<longrightarrow> warn (validation_info V' ! k) = Some True)
         \<and> (units = 100 \<and> failed = 5 \<and> warn_at th = Some (AbsoluteCount 10)
              \<longrightarrow> warn (validation_info V' ! k) = Some False)"
proof -
  from interrogate_nth [OF run k] act obtain res0 v1 res1
    where a: "interrogate_active E (data V) res0 (validation_info V ! k) = Inr (v1, res1)"
      and v': "validation_info V' ! k = record_times E (clock (2 * k + 1)) (clock (2 * k + 2)) v1"
    by auto
  from interrogate_active_Inr [OF a] obtain th rs
    where th: "thresholds (validation_info V ! k) = Some th"
      and n: "step_n v1 = Some (length rs)"
      and nf: "n_failed v1 = Some (count_list rs (Some False))"
      and w: "warn v1 = Some (threshold_result th
                (convert_abs_count_to_fraction (count_list rs (Some False)) (length rs)) (length rs) Warn)"
      and s: "stop v1 = Some (threshold_result th
                (convert_abs_count_to_fraction (count_list rs (Some False)) (length rs)) (length rs) Stop)"
      and nt: "notify v1 = Some (threshold_result th
                (convert_abs_count_to_fraction (count_list rs (Some False)) (length rs)) (length rs) Notify)"
    by blast
  have le: "count_list rs (Some False) \<le> length rs"
    by (rule count_le_length)
  have w': "warn (validation_info V' ! k) = Some (exceeded (warn_at th) (count_list rs (Some False)) (length rs))"
    using w by (simp add: v' threshold_result_exceeded [OF le] exceeded_def)
  have s': "stop (validation_info V' ! k) = Some (exceeded (stop_at th) (count_list rs (Some False)) (length rs))"
    using s by (simp add: v' threshold_result_exceeded [OF le] exceeded_def)
  have nt': "notify (validation_info V' ! k) = Some (exceeded (notify_at th) (count_list rs (Some False)) (length rs))"
    using nt by (simp add: v' threshold_result_exceeded [OF le] exceeded_def)
  have c1: "length rs = 100 \<and> count_list rs (Some False) = 5 \<and> warn_at th = Some (FailFraction (4 / 100))
              \<longrightarrow> warn (validation_info V' ! k) = Some True"
    using w' by (simp add: exceeded_def)
  have c2: "length rs = 100 \<and> count_list rs (Some False) = 5 \<and> warn_at th = Some (AbsoluteCount 10)
              \<longrightarrow> warn (validation_info V' ! k) = Some False"
    using w' by (simp add: exceeded_def)
  show ?thesis
    apply (rule exI [of _ th], rule exI [of _ "length rs"], rule exI [of _ "count_list rs (Some False)"])
    using th n nf w' s' nt' c1 c2 by (simp add: v')
qed

theorem threshold_levels_witness:
  fixes E :: "(bool option list, int, unit) collaborators"
    and V0 V :: "(bool option list, int, unit) Validate"
  defines "E \<equiv> \<lparr>apply_pre = (\<lambda>p t. Inr t),
                 TYPE_METHOD_MAP = [''col_vals_gt'' \<mapsto> ''gt''],
                 COMPARE_TYPE_MAP = [''gt'' \<mapsto> ''COMPARE_ONE''],
                 COMPATIBLE_TYPES = Map.empty,
                 ROW_BASED_VALIDATION_TYPES = [''col_vals_gt''],
                 get_test_units = (\<lambda>t c. Inr (length t)),
                 ColValsCompareOne = (\<lambda>t v c ts. Inr t),
                 ColValsCompareTwo = (\<lambda>t v c ts. Inr t),
                 ColValsCompareSet = (\<lambda>t v b ts. Inr t),
                 pb_is_good_list = (\<lambda>t. t),
                 failing_rows = filter (\<lambda>b. b = Some False),
                 isoformat = (\<lambda>t. [])\<rparr>"
  defines "V0 \<equiv> Validate_post_init (replicate 95 (Some True) @ replicate 5 (Some False)) None None
                   \<lparr>warn_at = None, stop_at = None, notify_at = None\<rparr>"
  defines "V \<equiv> col_vals_gt
                  (col_vals_gt V0 ''x'' 0 False None
                     (Some \<lparr>warn_at = Some (FailFraction (4 / 100)), stop_at = None, notify_at = None\<rparr>) True)
                  ''x'' 0 False None
                  (Some \<lparr>warn_at = Some (AbsoluteCount 10), stop_at = None, notify_at = None\<rparr>) True"
  shows "\<exists>V'. interrogate E rat_of_nat V = Inr V'
            \<and> step_n (validation_info V' ! 0) = Some 100
            \<and> n_failed (validation_info V' ! 0) = Some 5
            \<and> warn (validation_info V' ! 0) = Some True
            \<and> warn (validation_info V' ! 1) = Some False"
proof -
  have ev: "\<exists>V'. interrogate E rat_of_nat V = Inr V'
            \<and> step_n (validation_info V' ! 0) = Some 100
            \<and> n_failed (validation_info V' ! 0) = Some 5
            \<and> step_n (validation_info V' ! 1) = Some 100
            \<and> n_failed (validation_info V' ! 1) = Some 5"
    by (simp add: E_def V0_def V_def interrogate_def interrogate_active_def bind_err_def
          or_raise_def record_times_def col_vals_gt_def add_validation_def new_step_def
          Validate_post_init_def count_list_replicate Let_def)
  then obtain V' where run: "interrogate E rat_of_nat V = Inr V'"
    and n0: "step_n (validation_info V' ! 0) = Some 100"
    and f0: "n_failed (validation_info V' ! 0) = Some 5"
    and n1: "step_n (validation_info V' ! 1) = Some 100"
    and f1: "n_failed (validation_info V' ! 1) = Some 5"
    by blast
  have len: "0 < length (validation_info V)" "1 < length (validation_info V)"
    by (simp_all add: V_def V0_def col_vals_gt_def add_validation_def Validate_post_init_def)
  have act: "active (validation_info V ! 0) = Some True" "active (validation_info V ! 1) = Some True"
    by (simp_all add: V_def V0_def col_vals_gt_def add_validation_def Validate_post_init_def new_step_def)
  have th: "thresholds (validation_info V ! 0)
              = Some \<lparr>warn_at = Some (FailFraction (4 / 100)), stop_at = None, notify_at = None\<rparr>"
    "thresholds (validation_info V ! 1)
              = Some \<lparr>warn_at = Some (AbsoluteCount 10), stop_at = None, notify_at = None\<rparr>"
    by (simp_all add: V_def V0_def col_vals_gt_def add_validation_def Validate_post_init_def new_step_def)
  from threshold_levels_of_active_step [OF run len(1) act(1)] n0 f0 th(1)
  have w0: "warn (validation_info V' ! 0) = Some True" by auto
  from threshold_levels_of_active_step [OF run len(2) act(2)] n1 f1 th(2)
  have w1: "warn (validation_info V' ! 1) = Some False" by auto
  from run n0 f0 w0 w1 show ?thesis by blast
qed

text \<open>
  Claim C6. In a plan built by registration, a step registered with
  \<open>active = False\<close> has, after \<open>interrogate\<close> has returned, its processing time
  and its duration, and every other result field still \<open>None\<close>; each accessor,
  asked for the step's index, returns the dictionary that maps the index to \<open>None\<close>.
\<close>

theorem inactive_step_only_timestamped:
  fixes E :: "('tbl, 'v, 'p) collaborators" and V V' :: "('tbl, 'v, 'p) Validate" and k :: nat
  defines "v' \<equiv> validation_info V' ! k"
  defines "key \<equiv> Some (int k + 1)"
  assumes empty: "validation_info V0 = []"
    and plan: "V = foldl add_validation V0 steps"
    and k: "k < length steps"
    and step: "steps ! k = new_step ty col vals incl na p th False"
    and run: "interrogate E clock V = Inr V'"
  shows "time_processed v' = Some (isoformat E (clock (2 * k + 2)))
       \<and> proc_duration_s v' = Some (clock (2 * k + 2) - clock (2 * k + 1))
       \<and> all_passed v' = None \<and> step_n v' = None \<and> n_passed v' = None \<and> n_failed v' = None
       \<and> f_passed v' = None \<and> f_failed v' = None
       \<and> warn v' = None \<and> stop v' = None \<and> notify v' = None
       \<and> tbl_checked v' = None \<and> step_extract v' = None
       \<and> Validate_n V' (OneStep (int k + 1)) = [key \<mapsto> None]
       \<and> Validate_n_passed V' (OneStep (int k + 1)) = [key \<mapsto> None]
       \<and> Validate_n_failed V' (OneStep (int k + 1)) = [key \<mapsto> None]
       \<and> Validate_f_passed V' (OneStep (int k + 1)) = [key \<mapsto> None]
       \<and> Validate_f_failed V' (OneStep (int k + 1)) = [key \<mapsto> None]
       \<and> Validate_warn V' (OneStep (int k + 1)) = [key \<mapsto> None]
       \<and> Validate_stop V' (OneStep (int k + 1)) = [key \<mapsto> None]
       \<and> Validate_notify V' (OneStep (int k + 1)) = [key \<mapsto> None]
       \<and> get_data_extracts V' (OneStep (int k + 1)) = [key \<mapsto> None]"
proof -
  have kV: "k < length (validation_info V)"
    using k plan registered_length [OF empty] by simp
  have vk: "validation_info V ! k = (steps ! k)\<lparr>step_i := Some (int k + 1)\<rparr>"
    using plan registered_nth [OF empty k] by simp
  have inactive: "active (validation_info V ! k) \<noteq> Some True"
    by (simp add: vk step)
  from interrogate_nth [OF run kV] inactive
  have v': "v' = record_times E (clock (2 * k + 1)) (clock (2 * k + 2)) (validation_info V ! k)"
    by (simp add: v'_def)
  have fields: "time_processed v' = Some (isoformat E (clock (2 * k + 2)))"
    "proc_duration_s v' = Some (clock (2 * k + 2) - clock (2 * k + 1))"
    "all_passed v' = None" "step_n v' = None" "n_passed v' = None" "n_failed v' = None"
    "f_passed v' = None" "f_failed v' = None" "warn v' = None" "stop v' = None"
    "notify v' = None" "tbl_checked v' = None" "step_extract v' = None"
    by (simp_all add: v' vk step)
  have dict: "\<And>attr. get_validation_dict V' (OneStep (int k + 1)) attr = [key \<mapsto> attr v']"
    unfolding key_def v'_def
    by (rule get_validation_dict_one_registered [OF empty plan run k])
  show ?thesis
    unfolding Validate_n_def Validate_n_passed_def Validate_n_failed_def Validate_f_passed_def
      Validate_f_failed_def Validate_warn_def Validate_stop_def Validate_notify_def
      get_data_extracts_def dict
    using fields by simp
qed

theorem inactive_step_witness:
  fixes E :: "(bool option list, int list, unit) collaborators"
    and V0 V :: "(bool option list, int list, unit) Validate"
  defines "E \<equiv> \<lparr>apply_pre = (\<lambda>p t. Inr t),
                 TYPE_METHOD_MAP = [''col_vals_gt'' \<mapsto> ''gt'', ''col_vals_in_set'' \<mapsto> ''in_set''],
                 COMPARE_TYPE_MAP = [''gt'' \<mapsto> ''COMPARE_ONE'', ''in_set'' \<mapsto> ''COMPARE_SET''],
                 COMPATIBLE_TYPES = Map.empty,
                 ROW_BASED_VALIDATION_TYPES = [''col_vals_gt'', ''col_vals_in_set''],
                 get_test_units = (\<lambda>t c. Inr (length t)),
                 ColValsCompareOne = (\<lambda>t v c ts. Inr t),
                 ColValsCompareTwo = (\<lambda>t v c ts. Inr t),
                 ColValsCompareSet = (\<lambda>t v b ts. Inr t),
                 pb_is_good_list = (\<lambda>t. t),
                 failing_rows = filter (\<lambda>b. b = Some False),
                 isoformat = (\<lambda>t. [])\<rparr>"
  defines "th \<equiv> \<lparr>warn_at = None, stop_at = None, notify_at = None\<rparr>"
  defines "V0 \<equiv> Validate_post_init (replicate 7 (Some True) @ replicate 3 (Some False)) None None th"
  defines "V \<equiv> col_vals_in_set (col_vals_gt V0 ''x'' [0] False None None True)
                  ''y'' [1, 2] None None False"
  shows "\<exists>V'. interrogate E rat_of_nat V = Inr V'
            \<and> step_n (validation_info V' ! 0) = Some 10
            \<and> n_failed (validation_info V' ! 0) = Some 3
            \<and> f_failed (validation_info V' ! 0) = Some (3 / 10)
            \<and> proc_duration_s (validation_info V' ! 1) = Some 1
            \<and> step_n (validation_info V' ! 1) = None
            \<and> warn (validation_info V' ! 1) = None
            \<and> Validate_n V' (OneStep 2) = [Some 2 \<mapsto> None]
            \<and> Validate_warn V' (OneStep 2) = [Some 2 \<mapsto> None]"
proof -
  have ev: "\<exists>V'. interrogate E rat_of_nat V = Inr V'
            \<and> step_n (validation_info V' ! 0) = Some 10
            \<and> n_failed (validation_info V' ! 0) = Some 3
            \<and> f_failed (validation_info V' ! 0) = Some (3 / 10)"
    by (simp add: E_def V0_def V_def th_def interrogate_def interrogate_active_def bind_err_def
          or_raise_def record_times_def col_vals_gt_def col_vals_in_set_def add_validation_def
          new_step_def Validate_post_init_def count_list_replicate Let_def
          convert_abs_count_to_fraction_def)
  then obtain V' where run: "interrogate E rat_of_nat V = Inr V'"
    and r0: "step_n (validation_info V' ! 0) = Some 10"
      "n_failed (validation_info V' ! 0) = Some 3"
      "f_failed (validation_info V' ! 0) = Some (3 / 10)"
    by blast
  have empty: "validation_info V0 = []"
    by (simp add: V0_def Validate_post_init_def)
  have plan: "V = foldl add_validation V0
                    [new_step ''col_vals_gt'' ''x'' [0] None (Some False) None th True,
                     new_step ''col_vals_in_set'' ''y'' [1, 2] None None None th False]"
    by (simp add: V_def V0_def col_vals_gt_def col_vals_in_set_def add_validation_def
          Validate_post_init_def)
  from inactive_step_only_timestamped [OF empty plan _ _ run, of 1 "''col_vals_in_set''" "''y''" "[1, 2]" None None None th]
  have "proc_duration_s (validation_info V' ! 1) = Some 1
      \<and> step_n (validation_info V' ! 1) = None
      \<and> warn (validation_info V' ! 1) = None
      \<and> Validate_n V' (OneStep 2) = [Some 2 \<mapsto> None]
      \<and> Validate_warn V' (OneStep 2) = [Some 2 \<mapsto> None]"
    by simp
  with run r0 show ?thesis by blast
qed

text \<open>
  Claim C10. For a plan built by registering \<open>n\<close> steps and then interrogated, and
  for every attribute (so for each of the accessors \<open>n\<close>, \<open>n_passed\<close>, \<open>n_failed\<close>,
  \<open>f_passed\<close>, \<open>f_failed\<close>, \<open>warn\<close>, \<open>stop\<close>, \<open>notify\<close> and
  \<open>get_data_extracts\<close>, which are \<open>_get_validation_dict\<close> at their field): asked for
  an integer or a list of integers none of which is one of \<open>1, ..., n\<close>, the accessor
  returns the empty dictionary; asked for all steps, it returns a dictionary whose keys
  are \<open>1, ..., n\<close> and whose value at \<open>k + 1\<close> is the attribute of the step at
  position \<open>k\<close>.
\<close>

theorem accessors_by_step_index:
  fixes attr :: "('tbl, 'v, 'p) ValidationInfo \<Rightarrow> 'b"
  assumes "validation_info V0 = []" and "V = foldl add_validation V0 steps"
    and "interrogate E clock V = Inr V'"
  shows "((\<forall>j \<in> set js. j < 1 \<or> int (length steps) < j) \<longrightarrow>
            get_validation_dict V' (Steps js) attr = Map.empty)
       \<and> (j < 1 \<or> int (length steps) < j \<longrightarrow>
            get_validation_dict V' (OneStep j) attr = Map.empty)
       \<and> dom (get_validation_dict V' AllSteps attr) = {Some i | i. 1 \<le> i \<and> i \<le> int (length steps)}
       \<and> (\<forall>k < length steps.
            get_validation_dict V' AllSteps attr (Some (int k + 1))
              = Some (attr (validation_info V' ! k)))"
proof -
  have len: "length (validation_info V') = length steps"
    by (rule post_run_length [OF assms])
  have idx: "\<And>k. k < length steps \<Longrightarrow> step_i (validation_info V' ! k) = Some (int k + 1)"
    by (rule post_run_step_i [OF assms])
  have none: "filter (\<lambda>v. step_i v \<in> Some ` set js') (validation_info V') = []"
    if "\<forall>j \<in> set js'. j < 1 \<or> int (length steps) < j" for js'
  proof -
    have "step_i v \<notin> Some ` set js'" if "v \<in> set (validation_info V')" for v
    proof -
      from that obtain k where k: "k < length (validation_info V')" and v: "v = validation_info V' ! k"
        by (auto simp add: in_set_conv_nth)
      then have "step_i v = Some (int k + 1)" using idx len by simp
      moreover have "int k + 1 \<notin> set js'"
        using \<open>\<forall>j \<in> set js'. j < 1 \<or> int (length steps) < j\<close> k len by force
      ultimately show ?thesis by auto
    qed
    then show ?thesis by (simp add: filter_empty_conv)
  qed
  have p1: "(\<forall>j \<in> set js. j < 1 \<or> int (length steps) < j) \<longrightarrow>
              get_validation_dict V' (Steps js) attr = Map.empty"
    using none [of js] by (simp add: get_validation_dict_steps)
  have p2: "j < 1 \<or> int (length steps) < j \<longrightarrow>
              get_validation_dict V' (OneStep j) attr = Map.empty"
    using none [of "[j]"] by (simp add: get_validation_dict_one get_validation_dict_steps)
  have "dom (get_validation_dict V' AllSteps attr) = set (map step_i (validation_info V'))"
    by (simp add: get_validation_dict_all dom_dict_of image_image)
  also have "\<dots> = (\<lambda>k. Some (int k + 1)) ` {0..<length steps}"
    by (simp add: post_run_indices [OF assms])
  also have "\<dots> = {Some i | i. 1 \<le> i \<and> i \<le> int (length steps)}"
  proof (rule set_eqI, rule iffI)
    fix x assume "x \<in> (\<lambda>k. Some (int k + 1)) ` {0..<length steps}"
    then show "x \<in> {Some i | i. 1 \<le> i \<and> i \<le> int (length steps)}" by auto
  next
    fix x assume "x \<in> {Some i | i. 1 \<le> i \<and> i \<le> int (length steps)}"
    then obtain i where x: "x = Some i" and i: "1 \<le> i" "i \<le> int (length steps)" by blast
    then have "nat (i - 1) \<in> {0..<length steps}" "int (nat (i - 1)) + 1 = i" by auto
    with x show "x \<in> (\<lambda>k. Some (int k + 1)) ` {0..<length steps}"
      by (metis (mono_tags, lifting) image_eqI)
  qed
  finally have p3: "dom (get_validation_dict V' AllSteps attr)
                      = {Some i | i. 1 \<le> i \<and> i \<le> int (length steps)}" .
  have p4: "\<forall>k < length steps.
              get_validation_dict V' AllSteps attr (Some (int k + 1))
                = Some (attr (validation_info V' ! k))"
  proof (intro allI impI)
    fix k assume k: "k < length steps"
    let ?items = "map (\<lambda>v. (step_i v, attr v)) (validation_info V')"
    have d: "distinct (map fst ?items)"
      using post_run_distinct [OF assms] by (simp add: comp_def)
    have kl: "k < length ?items" using k len by simp
    from dict_of_distinct_nth [OF d kl] k len idx [OF k]
    show "get_validation_dict V' AllSteps attr (Some (int k + 1))
            = Some (attr (validation_info V' ! k))"
      by (simp add: get_validation_dict_all)
  qed
  from p1 p2 p3 p4 show ?thesis by blast
qed

theorem accessors_by_step_index_witness:
  fixes E :: "(bool option list, int list, unit) collaborators"
    and V0 V :: "(bool option list, int list, unit) Validate"
  defines "E \<equiv> \<lparr>apply_pre = (\<lambda>p t. Inr t),
                 TYPE_METHOD_MAP = [''col_vals_gt'' \<mapsto> ''gt'', ''col_vals_in_set'' \<mapsto> ''in_set''],
                 COMPARE_TYPE_MAP = [''gt'' \<mapsto> ''COMPARE_ONE'', ''in_set'' \<mapsto> ''COMPARE_SET''],
                 COMPATIBLE_TYPES = Map.empty,
                 ROW_BASED_VALIDATION_TYPES = [''col_vals_gt'', ''col_vals_in_set''],
                 get_test_units = (\<lambda>t c. Inr (length t)),
                 ColValsCompareOne = (\<lambda>t v c ts. Inr t),
                 ColValsCompareTwo = (\<lambda>t v c ts. Inr t),
                 ColValsCompareSet = (\<lambda>t v b ts. Inr t),
                 pb_is_good_list = (\<lambda>t. t),
                 failing_rows = filter (\<lambda>b. b = Some False),
                 isoformat = (\<lambda>t. [])\<rparr>"
  defines "th \<equiv> \<lparr>warn_at = None, stop_at = None, notify_at = None\<rparr>"
  defines "V0 \<equiv> Validate_post_init (replicate 7 (Some True) @ replicate 3 (Some False)) None None th"
  defines "V \<equiv> col_vals_in_set (col_vals_gt V0 ''x'' [0] False None None True)
                  ''y'' [1, 2] None None False"
  shows "\<exists>V'. interrogate E rat_of_nat V = Inr V'
            \<and> get_validation_dict V' (OneStep 3) step_n = Map.empty
            \<and> get_validation_dict V' (Steps [0, 7]) step_n = Map.empty
            \<and> dom (get_validation_dict V' AllSteps step_n) = {Some 1, Some 2}
            \<and> get_validation_dict V' AllSteps step_n (Some 1) = Some (Some 10)
            \<and> get_validation_dict V' AllSteps step_n (Some 2) = Some None"
proof -
  have ev: "\<exists>V'. interrogate E rat_of_nat V = Inr V'
            \<and> step_n (validation_info V' ! 0) = Some 10
            \<and> step_n (validation_info V' ! 1) = None"
    by (simp add: E_def V0_def V_def th_def interrogate_def interrogate_active_def bind_err_def
          or_raise_def record_times_def col_vals_gt_def col_vals_in_set_def add_validation_def
          new_step_def Validate_post_init_def count_list_replicate Let_def
          convert_abs_count_to_fraction_def)
  then obtain V' where run: "interrogate E rat_of_nat V = Inr V'"
    and r: "step_n (validation_info V' ! 0) = Some 10" "step_n (validation_info V' ! 1) = None"
    by blast
  have empty: "validation_info V0 = []"
    by (simp add: V0_def Validate_post_init_def)
  have plan: "V = foldl add_validation V0
                    [new_step ''col_vals_gt'' ''x'' [0] None (Some False) None th True,
                     new_step ''col_vals_in_set'' ''y'' [1, 2] None None None th False]"
    by (simp add: V_def V0_def col_vals_gt_def col_vals_in_set_def add_validation_def
          Validate_post_init_def)
  have dom2: "{Some i | i. 1 \<le> i \<and> i \<le> (2::int)} = {Some 1, Some 2}"
    by auto
  note acc = accessors_by_step_index [OF empty plan run, where js = "[0, 7]" and j = 3
                 and attr = step_n]
  from acc have none: "get_validation_dict V' (OneStep 3) step_n = Map.empty"
      "get_validation_dict V' (Steps [0, 7]) step_n = Map.empty"
    by simp_all
  from acc have dom: "dom (get_validation_dict V' AllSteps step_n) = {Some 1, Some 2}"
    by (simp add: dom2)
  from acc have each: "\<forall>k<2. get_validation_dict V' AllSteps step_n (Some (int k + 1))
                              = Some (step_n (validation_info V' ! k))"
    by simp
  from each [rule_format, of 0] each [rule_format, of 1] r
  have "get_validation_dict V' AllSteps step_n (Some 1) = Some (Some 10)"
    "get_validation_dict V' AllSteps step_n (Some 2) = Some None"
    by simp_all
  with none dom
  have "get_validation_dict V' (OneStep 3) step_n = Map.empty
      \<and> get_validation_dict V' (Steps [0, 7]) step_n = Map.empty
      \<and> dom (get_validation_dict V' AllSteps step_n) = {Some 1, Some 2}
      \<and> get_validation_dict V' AllSteps step_n (Some 1) = Some (Some 10)
      \<and> get_validation_dict V' AllSteps step_n (Some 2) = Some None"
    by simp
  with run show ?thesis by blast
qed

end
